theory Spec2Isabelle
  imports Main "HOL-Library.Sublist"
begin

section \<open>Order workflow: data model\<close>

text \<open>
  The order services (\<^verbatim>\<open>services/admin-orders.ts\<close> and \<^verbatim>\<open>services/operator-jobs.ts\<close>)
  are thin wrappers around point updates of the \<^verbatim>\<open>orders\<close> table. The ten values of
  the TypeScript union \<^verbatim>\<open>OrderStatus\<close> become a datatype; the operator console works
  with the narrower union \<^verbatim>\<open>ProductionStatus\<close>.
\<close>

datatype OrderStatus =
    pending
  | confirmation_pending
  | in_production
  | cutting
  | post_processing
  | quality_check
  | packaging
  | shipped
  | delivered
  | cancelled

datatype ProductionStatus =
    job_cutting
  | job_post_processing
  | job_quality_check
  | job_packaging

text \<open>A \<^verbatim>\<open>ProductionStatus\<close> string is written to the same \<^verbatim>\<open>status\<close> column.\<close>

fun production_status :: "ProductionStatus \<Rightarrow> OrderStatus" where
  "production_status job_cutting = cutting"
| "production_status job_post_processing = post_processing"
| "production_status job_quality_check = quality_check"
| "production_status job_packaging = packaging"

text \<open>
  A row of \<^verbatim>\<open>orders\<close>, restricted to the columns the write operations touch or the
  views inspect. The primary key \<^verbatim>\<open>id\<close> is the key of the table below. Timestamps are
  ISO strings (\<^verbatim>\<open>new Date().toISOString()\<close>); \<^verbatim>\<open>null\<close> is \<open>None\<close>.
\<close>

record Order =
  status :: OrderStatus
  payment_proof_file_id :: "string option"
  payment_proof_uploaded_at :: "string option"
  payment_confirmed_by :: "string option"
  payment_confirmed_at :: "string option"
  assigned_operator_id :: "string option"
  assigned_at :: "string option"
  production_started_at :: "string option"
  production_completed_at :: "string option"
  operator_notes :: "string option"
  status_updated_by :: "string option"
  status_updated_at :: "string option"
  shipped_at :: "string option"
  tracking_number :: "string option"
  tracking_url :: "string option"

text \<open>A row of \<^verbatim>\<open>order_status_history\<close>, as the detail views display it.\<close>

record StatusHistoryEntry =
  order_id :: string
  old_status :: "OrderStatus option"
  new_status :: OrderStatus
  changed_by :: "string option"
  notes' :: "string option"
  created_at :: string

text \<open>
  The store, as the services see it: the \<^verbatim>\<open>orders\<close> table keyed by \<^verbatim>\<open>id\<close> and the
  \<^verbatim>\<open>order_status_history\<close> table. The store is an external collaborator offering a
  point update of an order's fields by id; it applies exactly the columns of the payload.
\<close>

record Database =
  orders :: "string \<rightharpoonup> Order"
  order_status_history :: "StatusHistoryEntry list"

text \<open>
  The object literal passed to \<^verbatim>\<open>.update(...)\<close>: one entry per key that is present,
  for the mutable columns of the record above. Only \<^verbatim>\<open>payment_proof_file_id\<close> and
  \<^verbatim>\<open>payment_proof_uploaded_at\<close> are ever written as \<^verbatim>\<open>null\<close>.
\<close>

datatype Column =
    Set_status OrderStatus
  | Set_status_updated_by string
  | Set_operator_notes string
  | Set_payment_confirmed_by string
  | Set_payment_confirmed_at string
  | Set_payment_proof_file_id "string option"
  | Set_payment_proof_uploaded_at "string option"
  | Set_assigned_operator_id string
  | Set_assigned_at string
  | Set_production_started_at string
  | Set_production_completed_at string
  | Set_shipped_at string
  | Set_tracking_number string
  | Set_tracking_url string
  | Set_status_updated_at string

fun set_column :: "Column \<Rightarrow> Order \<Rightarrow> Order" where
  "set_column (Set_status s) ord = ord\<lparr>status := s\<rparr>"
| "set_column (Set_status_updated_by u) ord = ord\<lparr>status_updated_by := Some u\<rparr>"
| "set_column (Set_operator_notes n) ord = ord\<lparr>operator_notes := Some n\<rparr>"
| "set_column (Set_payment_confirmed_by u) ord = ord\<lparr>payment_confirmed_by := Some u\<rparr>"
| "set_column (Set_payment_confirmed_at t) ord = ord\<lparr>payment_confirmed_at := Some t\<rparr>"
| "set_column (Set_payment_proof_file_id f) ord = ord\<lparr>payment_proof_file_id := f\<rparr>"
| "set_column (Set_payment_proof_uploaded_at t) ord = ord\<lparr>payment_proof_uploaded_at := t\<rparr>"
| "set_column (Set_assigned_operator_id u) ord = ord\<lparr>assigned_operator_id := Some u\<rparr>"
| "set_column (Set_assigned_at t) ord = ord\<lparr>assigned_at := Some t\<rparr>"
| "set_column (Set_production_started_at t) ord = ord\<lparr>production_started_at := Some t\<rparr>"
| "set_column (Set_production_completed_at t) ord = ord\<lparr>production_completed_at := Some t\<rparr>"
| "set_column (Set_shipped_at t) ord = ord\<lparr>shipped_at := Some t\<rparr>"
| "set_column (Set_tracking_number n) ord = ord\<lparr>tracking_number := Some n\<rparr>"
| "set_column (Set_tracking_url u) ord = ord\<lparr>tracking_url := Some u\<rparr>"
| "set_column (Set_status_updated_at t) ord = ord\<lparr>status_updated_at := Some t\<rparr>"

definition apply_payload :: "Column list \<Rightarrow> Order \<Rightarrow> Order" where
  "apply_payload payload ord = fold set_column payload ord"

text \<open>
  \<^verbatim>\<open>supabase.from('orders').update(payload).eq('id', orderId)\<close>. The answer of the store
  is an input: \<open>None\<close> when \<^verbatim>\<open>error\<close> is null, \<open>Some msg\<close> when the store reports an
  error with that message (then no row changes). An id that matches no row is not an
  error: nothing changes.
\<close>

definition update_orders :: "Column list \<Rightarrow> string \<Rightarrow> string option \<Rightarrow> Database \<Rightarrow> Database" where
  "update_orders payload orderId response db =
     (case response of
        Some msg \<Rightarrow> db
      | None \<Rightarrow>
          (case orders db orderId of
             None \<Rightarrow> db
           | Some ord \<Rightarrow> db\<lparr>orders := (orders db)(orderId \<mapsto> apply_payload payload ord)\<rparr>))"

text \<open>
  What the services throw: \<^verbatim>\<open>new Error(message)\<close> in \<^verbatim>\<open>admin-orders.ts\<close>, the store's
  own error object rethrown (\<^verbatim>\<open>if (error) throw error\<close>) in \<^verbatim>\<open>operator-jobs.ts\<close>.
\<close>

datatype error = Error string | StoreError string

text \<open>JavaScript truthiness of an optional string: \<^verbatim>\<open>undefined\<close>, \<^verbatim>\<open>null\<close> and \<^verbatim>\<open>''\<close> are falsy.\<close>

fun truthy :: "string option \<Rightarrow> bool" where
  "truthy None = False"
| "truthy (Some s) = (s \<noteq> [])"

section \<open>Order workflow: the write operations\<close>

text \<open>
  Every operation takes the store's answer and the current time as inputs and returns
  its result together with the store afterwards.
\<close>

definition approvePayment ::
  "string \<Rightarrow> string \<Rightarrow> string \<Rightarrow> string option \<Rightarrow> Database \<Rightarrow> (error + unit) \<times> Database" where
  "approvePayment orderId adminId now response db =
     (let payload = [Set_status in_production,
                     Set_payment_confirmed_by adminId,
                     Set_payment_confirmed_at now,
                     Set_status_updated_by adminId];
          db' = update_orders payload orderId response db
      in case response of
           Some msg \<Rightarrow> (Inl (Error (''Failed to approve payment: '' @ msg)), db')
         | None \<Rightarrow> (Inr (), db'))"

definition rejectPayment ::
  "string \<Rightarrow> string \<Rightarrow> string \<Rightarrow> string option \<Rightarrow> Database \<Rightarrow> (error + unit) \<times> Database" where
  "rejectPayment orderId adminId reason response db =
     (let payload = [Set_status pending,
                     Set_operator_notes (''Payment rejected: '' @ reason),
                     Set_status_updated_by adminId,
                     Set_payment_proof_file_id None,
                     Set_payment_proof_uploaded_at None];
          db' = update_orders payload orderId response db
      in case response of
           Some msg \<Rightarrow> (Inl (Error (''Failed to reject payment: '' @ msg)), db')
         | None \<Rightarrow> (Inr (), db'))"

definition updateOrderStatus ::
  "string \<Rightarrow> OrderStatus \<Rightarrow> string \<Rightarrow> string option \<Rightarrow> string option \<Rightarrow> Database
     \<Rightarrow> (error + unit) \<times> Database" where
  "updateOrderStatus orderId newStatus userId notes response db =
     (let updateData = [Set_status newStatus, Set_status_updated_by userId]
                       @ (case notes of
                            Some n \<Rightarrow> if truthy notes then [Set_operator_notes n] else []
                          | None \<Rightarrow> []);
          db' = update_orders updateData orderId response db
      in case response of
           Some msg \<Rightarrow> (Inl (Error (''Failed to update order status: '' @ msg)), db')
         | None \<Rightarrow> (Inr (), db'))"

definition cancelOrder ::
  "string \<Rightarrow> string \<Rightarrow> string \<Rightarrow> string option \<Rightarrow> Database \<Rightarrow> (error + unit) \<times> Database" where
  "cancelOrder orderId adminId reason response db =
     (let payload = [Set_status cancelled,
                     Set_operator_notes (''Cancelled by admin: '' @ reason),
                     Set_status_updated_by adminId];
          db' = update_orders payload orderId response db
      in case response of
           Some msg \<Rightarrow> (Inl (Error (''Failed to cancel order: '' @ msg)), db')
         | None \<Rightarrow> (Inr (), db'))"

text \<open>The operator console (\<^verbatim>\<open>operator-jobs.ts\<close>).\<close>

definition startProduction ::
  "string \<Rightarrow> string \<Rightarrow> string \<Rightarrow> string option \<Rightarrow> Database \<Rightarrow> (error + unit) \<times> Database" where
  "startProduction jobId operatorId now response db =
     (let payload = [Set_status cutting,
                     Set_production_started_at now,
                     Set_status_updated_by operatorId];
          db' = update_orders payload jobId response db
      in case response of
           Some msg \<Rightarrow> (Inl (StoreError msg), db')
         | None \<Rightarrow> (Inr (), db'))"

definition updateJobStatus ::
  "string \<Rightarrow> ProductionStatus \<Rightarrow> string \<Rightarrow> string option \<Rightarrow> string \<Rightarrow> string option \<Rightarrow> Database
     \<Rightarrow> (error + unit) \<times> Database" where
  "updateJobStatus jobId newStatus operatorId notes now response db =
     (let updateData = [Set_status (production_status newStatus), Set_status_updated_by operatorId]
                       @ (case notes of
                            Some n \<Rightarrow> if truthy notes then [Set_operator_notes n] else []
                          | None \<Rightarrow> [])
                       @ (if newStatus = job_packaging then [Set_production_completed_at now] else []);
          db' = update_orders updateData jobId response db
      in case response of
           Some msg \<Rightarrow> (Inl (StoreError msg), db')
         | None \<Rightarrow> (Inr (), db'))"

definition markReadyForShipping ::
  "string \<Rightarrow> string \<Rightarrow> string \<Rightarrow> string option \<Rightarrow> Database \<Rightarrow> (error + unit) \<times> Database" where
  "markReadyForShipping jobId operatorId now response db =
     (let payload = [Set_status packaging,
                     Set_production_completed_at now,
                     Set_status_updated_by operatorId];
          db' = update_orders payload jobId response db
      in case response of
           Some msg \<Rightarrow> (Inl (StoreError msg), db')
         | None \<Rightarrow> (Inr (), db'))"

definition shipOrder ::
  "string \<Rightarrow> string \<Rightarrow> string option \<Rightarrow> string option \<Rightarrow> string \<Rightarrow> string option \<Rightarrow> Database
     \<Rightarrow> (error + unit) \<times> Database" where
  "shipOrder jobId operatorId trackingNumber trackingUrl now response db =
     (let updateData = [Set_status shipped, Set_shipped_at now, Set_status_updated_by operatorId]
                       @ (case trackingNumber of
                            Some n \<Rightarrow> if truthy trackingNumber then [Set_tracking_number n] else []
                          | None \<Rightarrow> [])
                       @ (case trackingUrl of
                            Some u \<Rightarrow> if truthy trackingUrl then [Set_tracking_url u] else []
                          | None \<Rightarrow> []);
          db' = update_orders updateData jobId response db
      in case response of
           Some msg \<Rightarrow> (Inl (StoreError msg), db')
         | None \<Rightarrow> (Inr (), db'))"

section \<open>Order workflow: what the views offer\<close>

text \<open>
  The admin detail view (\<^verbatim>\<open>OrderDetailsModal.tsx\<close>) renders its action buttons from the
  order's \<^verbatim>\<open>status\<close> and \<^verbatim>\<open>assigned_operator_id\<close>. The three conditionals that call
  \<^verbatim>\<open>handleUpdateStatus\<close>, in the order they appear, give the statuses the admin can request
  through \<^verbatim>\<open>updateOrderStatus\<close>.
\<close>

definition OrderDetailsModal_status_buttons :: "Order \<Rightarrow> OrderStatus list" where
  "OrderDetailsModal_status_buttons ord =
     (if status ord = in_production \<and> truthy (assigned_operator_id ord) then [cutting] else [])
     @ (if status ord = packaging then [shipped] else [])
     @ (if status ord = shipped then [delivered] else [])"

text \<open>The buttons "Approve Payment" and "Reject Payment" are rendered together.\<close>

definition OrderDetailsModal_payment_buttons :: "Order \<Rightarrow> bool" where
  "OrderDetailsModal_payment_buttons ord = (status ord = confirmation_pending)"

text \<open>
  The operator's job view (\<^verbatim>\<open>JobDetailsModal.tsx\<close>) offers one button, for
  \<^verbatim>\<open>nextStatus[job.status] || null\<close>.
\<close>

fun nextStatus :: "OrderStatus \<Rightarrow> ProductionStatus option" where
  "nextStatus cutting = Some job_post_processing"
| "nextStatus post_processing = Some job_quality_check"
| "nextStatus quality_check = Some job_packaging"
| "nextStatus packaging = None"
| "nextStatus _ = None"

section \<open>Order workflow: the transition table of the specification\<close>

text \<open>
  The edges (from, to) of the transition table in section 4.1 of the specification. No
  function of the services consults such a table; it is written down here to state which
  requests the specification calls illegal.
\<close>

definition spec_transition_table :: "(OrderStatus \<times> OrderStatus) list" where
  "spec_transition_table =
     [(confirmation_pending, in_production),
      (confirmation_pending, pending),
      (pending, cancelled),
      (confirmation_pending, cancelled),
      (in_production, cutting),
      (cutting, post_processing),
      (post_processing, quality_check),
      (quality_check, packaging),
      (packaging, shipped),
      (shipped, delivered)]"

section \<open>Order workflow: concrete stores\<close>

text \<open>
  An order in a given status, assigned to operator \<open>op-1\<close>, carrying a payment proof and
  the note \<open>fragile\<close>; and a store holding it under the id \<open>o1\<close> with one earlier
  history row.
\<close>

definition order_in :: "OrderStatus \<Rightarrow> Order" where
  "order_in s =
     \<lparr>status = s,
      payment_proof_file_id = Some ''file-7'',
      payment_proof_uploaded_at = Some ''2025-01-19T08:00:00.000Z'',
      payment_confirmed_by = None,
      payment_confirmed_at = None,
      assigned_operator_id = Some ''op-1'',
      assigned_at = Some ''2025-01-19T09:00:00.000Z'',
      production_started_at = None,
      production_completed_at = None,
      operator_notes = Some ''fragile'',
      status_updated_by = None,
      status_updated_at = None,
      shipped_at = None,
      tracking_number = None,
      tracking_url = None\<rparr>"

definition first_entry :: StatusHistoryEntry where
  "first_entry =
     \<lparr>order_id = ''o1'',
      old_status = None,
      new_status = pending,
      changed_by = None,
      notes' = None,
      created_at = ''2025-01-19T07:00:00.000Z''\<rparr>"

definition store_with :: "Order \<Rightarrow> Database" where
  "store_with ord = \<lparr>orders = [''o1'' \<mapsto> ord], order_status_history = [first_entry]\<rparr>"

text \<open>The row stored under an id once an operation has returned.\<close>

definition row_after :: "(error + unit) \<times> Database \<Rightarrow> string \<Rightarrow> Order option" where
  "row_after outcome orderId = orders (snd outcome) orderId"

section \<open>Identity cache: data model\<close>

text \<open>
  The authentication helper (\<^verbatim>\<open>lib/auth.ts\<close>) keeps five module-level variables. A
  \<^verbatim>\<open>User\<close> is the profile the helper hands out; the role is whatever string the
  \<^verbatim>\<open>users\<close> table or the token's metadata carries.
\<close>

record User =
  id' :: string
  email :: string
  full_name :: "string option"
  role :: string

text \<open>
  \<^verbatim>\<open>session.user\<close>, as the identity provider issues it: the id, the optional email and
  the two entries of \<^verbatim>\<open>user_metadata\<close> that the helper reads.
\<close>

record AuthUser =
  auth_id :: string
  auth_email :: "string option"
  metadata_full_name :: "string option"
  metadata_role :: "string option"

record Session =
  user :: "AuthUser option"

text \<open>\<^verbatim>\<open>currentUserCache\<close>: \<^verbatim>\<open>{ user: User | null; timestamp: number }\<close>.\<close>

record Cache =
  cache_user :: "User option"
  timestamp :: int

text \<open>
  \<^verbatim>\<open>getCurrentUser\<close> is asynchronous: its body runs until it awaits the identity provider
  (\<^verbatim>\<open>getSession()\<close>) or the race between the profile query and its timeout, and is
  resumed with the answer. The place where the body of the fetch with a given promise is
  suspended:
\<close>

datatype Suspended =
    AwaitSession nat
  | AwaitProfile nat AuthUser

text \<open>
  The module state. Promises are handles (natural numbers, handed out in order). Besides the
  five variables of the source, the state records where the outstanding fetch is suspended,
  the value each promise has settled with, and how many calls went to the identity provider
  and to the \<^verbatim>\<open>users\<close> table.
\<close>

record AuthState =
  currentUserCache :: "Cache option"
  latestSession :: "Session option"
  lastUserId :: "string option"
  fetchInProgress :: bool
  fetchPromise :: "nat option"
  suspended :: "Suspended option"
  settled :: "nat \<rightharpoonup> User option"
  allocated :: nat
  getSessionCalls :: nat
  profileQueries :: nat

definition CACHE_DURATION :: int where
  "CACHE_DURATION = 30000"

text \<open>What an awaited call answers. \<^verbatim>\<open>getSession()\<close> resolves with
  \<^verbatim>\<open>{ data: { session }, error }\<close>, of which only \<^verbatim>\<open>data.session\<close> is used, or rejects.
  The race resolves with the query's \<^verbatim>\<open>{ data, error }\<close>, or with the timeout after eight
  seconds, or rejects.\<close>

datatype SessionAnswer =
    SessionData "Session option"
  | SessionThrew

datatype ProfileAnswer =
    QueryResult "string option" "User list option"
  | QueryTimeout
  | QueryThrew

datatype Answer =
    FromGetSession SessionAnswer
  | FromProfileQuery ProfileAnswer

text \<open>What a call of the asynchronous function returns: a promise already resolved with a
  value, or the promise of a fetch.\<close>

datatype Returned =
    Value "User option"
  | Promise nat

section \<open>Identity cache: operations\<close>

text \<open>\<^verbatim>\<open>session?.user\<close>\<close>

definition session_user :: "Session option \<Rightarrow> AuthUser option" where
  "session_user session = (case session of None \<Rightarrow> None | Some s \<Rightarrow> user s)"

text \<open>
  The fallback built from the token, in both places of the source:
  \<^verbatim>\<open>{ id: authUser.id, email: authUser.email || '', full_name: authUser.user_metadata?.full_name,
     role: authUser.user_metadata?.role || 'customer' }\<close>
\<close>

definition auth_metadata_user :: "AuthUser \<Rightarrow> User" where
  "auth_metadata_user authUser =
     \<lparr>id' = auth_id authUser,
      email = (case auth_email authUser of Some e \<Rightarrow> e | None \<Rightarrow> []),
      full_name = metadata_full_name authUser,
      role = (case metadata_role authUser of
                Some r \<Rightarrow> if r \<noteq> [] then r else ''customer''
              | None \<Rightarrow> ''customer'')\<rparr>"

text \<open>The \<^verbatim>\<open>.then\<close> callback of the profile query.\<close>

fun fetchUserProfile :: "AuthUser \<Rightarrow> string option \<Rightarrow> User list option \<Rightarrow> User" where
  "fetchUserProfile authUser (Some error) userProfiles = auth_metadata_user authUser"
| "fetchUserProfile authUser None None = auth_metadata_user authUser"
| "fetchUserProfile authUser None (Some []) = auth_metadata_user authUser"
| "fetchUserProfile authUser None (Some (profile # rest)) = profile"

text \<open>
  Leaving the body of the fetch with promise \<open>p\<close> and value \<open>v\<close>: the \<^verbatim>\<open>finally\<close> block
  resets the in-flight variables, and the promise settles.
\<close>

definition finish :: "nat \<Rightarrow> User option \<Rightarrow> AuthState \<Rightarrow> AuthState" where
  "finish p v st =
     st\<lparr>fetchInProgress := False,
        fetchPromise := None,
        suspended := None,
        settled := (settled st)(p \<mapsto> v)\<rparr>"

text \<open>
  The body from \<^verbatim>\<open>if (!session?.user)\<close> to the race: without a user the null identity
  is cached with the current time and the fetch returns null; with a user the profile
  query is issued and the body waits for the race.
\<close>

definition with_session :: "nat \<Rightarrow> Session option \<Rightarrow> int \<Rightarrow> AuthState \<Rightarrow> AuthState" where
  "with_session p session now st =
     (case session_user session of
        None \<Rightarrow> finish p None (st\<lparr>currentUserCache := Some \<lparr>cache_user = None, timestamp = now\<rparr>\<rparr>)
      | Some authUser \<Rightarrow>
          st\<lparr>profileQueries := Suc (profileQueries st),
             suspended := Some (AwaitProfile p authUser)\<rparr>)"

text \<open>
  A cache miss: \<^verbatim>\<open>fetchInProgress = true\<close>, then the body runs up to its first
  \<^verbatim>\<open>await\<close> (or to its end), and only then is the promise assigned to \<^verbatim>\<open>fetchPromise\<close>.
\<close>

definition start_fetch :: "int \<Rightarrow> AuthState \<Rightarrow> Returned \<times> AuthState" where
  "start_fetch now st =
     (let p = allocated st;
          st1 = st\<lparr>fetchInProgress := True, allocated := Suc p\<rparr>;
          st2 = (case latestSession st1 of
                   None \<Rightarrow> st1\<lparr>getSessionCalls := Suc (getSessionCalls st1),
                              suspended := Some (AwaitSession p)\<rparr>
                 | Some s \<Rightarrow> with_session p (Some s) now st1)
      in (Promise p, st2\<lparr>fetchPromise := Some p\<rparr>))"

definition check_cache :: "int \<Rightarrow> AuthState \<Rightarrow> Returned \<times> AuthState" where
  "check_cache now st =
     (case currentUserCache st of
        Some c \<Rightarrow>
          if now - timestamp c < CACHE_DURATION then (Value (cache_user c), st)
          else start_fetch now st
      | None \<Rightarrow> start_fetch now st)"

text \<open>\<^verbatim>\<open>getCurrentUser()\<close>, called at time \<open>now\<close> (\<^verbatim>\<open>Date.now()\<close>).\<close>

definition getCurrentUser :: "int \<Rightarrow> AuthState \<Rightarrow> Returned \<times> AuthState" where
  "getCurrentUser now st =
     (case fetchPromise st of
        Some p \<Rightarrow> if fetchInProgress st then (Promise p, st) else check_cache now st
      | None \<Rightarrow> check_cache now st)"

text \<open>
  The suspended body is resumed with the answer to the call it awaits, at time \<open>now\<close>.
  A rejection reaches the \<^verbatim>\<open>catch\<close> block, which returns null without caching. An
  answer nobody waits for changes nothing.
\<close>

fun resume_body :: "Suspended option \<Rightarrow> Answer \<Rightarrow> int \<Rightarrow> AuthState \<Rightarrow> AuthState" where
  "resume_body (Some (AwaitSession p)) (FromGetSession (SessionData session)) now st =
     with_session p session now st"
| "resume_body (Some (AwaitSession p)) (FromGetSession SessionThrew) now st =
     finish p None st"
| "resume_body (Some (AwaitProfile p authUser)) (FromProfileQuery (QueryResult error userProfiles)) now st =
     (let userProfile = fetchUserProfile authUser error userProfiles
      in finish p (Some userProfile)
           (st\<lparr>currentUserCache := Some \<lparr>cache_user = Some userProfile, timestamp = now\<rparr>\<rparr>))"
| "resume_body (Some (AwaitProfile p authUser)) (FromProfileQuery QueryTimeout) now st =
     (let userProfile = auth_metadata_user authUser
      in finish p (Some userProfile)
           (st\<lparr>currentUserCache := Some \<lparr>cache_user = Some userProfile, timestamp = now\<rparr>\<rparr>))"
| "resume_body (Some (AwaitProfile p authUser)) (FromProfileQuery QueryThrew) now st =
     finish p None st"
| "resume_body _ _ now st = st"

definition resume :: "Answer \<Rightarrow> int \<Rightarrow> AuthState \<Rightarrow> AuthState" where
  "resume answer now st = resume_body (suspended st) answer now st"

text \<open>
  \<^verbatim>\<open>signIn\<close> and \<^verbatim>\<open>signOut\<close>. The provider's answer is an input: an error (then the
  function throws it) or success. \<^verbatim>\<open>signIn\<close> touches none of the module variables.
\<close>

definition signIn :: "string \<Rightarrow> string \<Rightarrow> string + Session \<Rightarrow> AuthState \<Rightarrow> (string + Session) \<times> AuthState" where
  "signIn email_address password answer st = (answer, st)"

definition signOut :: "string option \<Rightarrow> AuthState \<Rightarrow> (string + unit) \<times> AuthState" where
  "signOut error st =
     (case error of
        Some e \<Rightarrow> (Inl e, st)
      | None \<Rightarrow> (Inr (), st\<lparr>currentUserCache := None, latestSession := None\<rparr>))"

text \<open>
  The handler that \<^verbatim>\<open>onAuthStateChange\<close> registers with the provider, run for one event
  carrying \<open>session\<close>. \<^verbatim>\<open>session?.user?.id || null\<close> is the id the event carries. The
  listener callback is either not called, or called with null at once, or called with
  what the awaited \<^verbatim>\<open>getCurrentUser()\<close> yields.
\<close>

definition currentUserId :: "Session option \<Rightarrow> string option" where
  "currentUserId session =
     (case session_user session of
        None \<Rightarrow> None
      | Some u \<Rightarrow> if auth_id u \<noteq> [] then Some (auth_id u) else None)"

datatype Notified =
    NotCalled
  | Called Returned

definition onAuthStateChange :: "Session option \<Rightarrow> int \<Rightarrow> AuthState \<Rightarrow> Notified \<times> AuthState" where
  "onAuthStateChange session now st =
     (let st1 = st\<lparr>latestSession := session\<rparr>;
          userChanged = (currentUserId session \<noteq> lastUserId st1)
      in if userChanged then
           (let st2 = st1\<lparr>currentUserCache := None, lastUserId := currentUserId session\<rparr>
            in case session_user session of
                 Some u \<Rightarrow> (let (r, st3) = getCurrentUser now st2 in (Called r, st3))
               | None \<Rightarrow> (Called (Value None), st2))
         else (NotCalled, st1))"

section \<open>Identity cache: runs\<close>

text \<open>
  The single-threaded event loop: calls of \<^verbatim>\<open>getCurrentUser\<close>, sign-ins, and answers
  arriving for the suspended fetch, one after the other. A run collects what the calls
  returned.
\<close>

datatype Event =
    is_Call: Call int
  | SignedIn string string "string + Session"
  | Arrives Answer int

fun run :: "Event list \<Rightarrow> AuthState \<Rightarrow> Returned list \<times> AuthState" where
  "run [] st = ([], st)"
| "run (Call now # events) st =
     (let (r, st1) = getCurrentUser now st;
          (rs, st2) = run events st1
      in (r # rs, st2))"
| "run (SignedIn email_address password answer # events) st =
     run events (snd (signIn email_address password answer st))"
| "run (Arrives answer now # events) st =
     run events (resume answer now st)"

text \<open>
  The events that leave a cache entry stamped \<open>t\<close> in place and fresh: calls of
  \<^verbatim>\<open>getCurrentUser\<close> made while \<^verbatim>\<open>Date.now() - t < CACHE_DURATION\<close>, and sign-ins
  (for which no auth-state event has been delivered).
\<close>

fun within_window :: "int \<Rightarrow> Event \<Rightarrow> bool" where
  "within_window t (Call now) = (now - t < CACHE_DURATION)"
| "within_window t (SignedIn email_address password answer) = True"
| "within_window t (Arrives answer now) = False"

text \<open>
  What the caller of \<^verbatim>\<open>getCurrentUser\<close> gets in a state: the value at once, or the
  value its promise has settled with (\<open>None\<close> while it is pending).
\<close>

fun yields :: "AuthState \<Rightarrow> Returned \<Rightarrow> User option option" where
  "yields st (Value v) = Some v"
| "yields st (Promise p) = settled st p"

section \<open>Identity cache: concrete states\<close>

text \<open>The module as loaded, and a session of the operator Alice.\<close>

definition initial_state :: AuthState where
  "initial_state =
     \<lparr>currentUserCache = None,
      latestSession = None,
      lastUserId = None,
      fetchInProgress = False,
      fetchPromise = None,
      suspended = None,
      settled = Map.empty,
      allocated = 0,
      getSessionCalls = 0,
      profileQueries = 0\<rparr>"

definition alice :: AuthUser where
  "alice =
     \<lparr>auth_id = ''u-1'',
      auth_email = Some ''alice@example.com'',
      metadata_full_name = Some ''Alice'',
      metadata_role = Some ''operator''\<rparr>"

definition alice_session :: Session where
  "alice_session = \<lparr>user = Some alice\<rparr>"

text \<open>
  Alice's row of the \<^verbatim>\<open>users\<close> table, and the module once she has signed in: the
  auth-state event carrying her session is handled at time 0 in the module as loaded, and
  the profile query it starts answers with her row at time 1000.
\<close>

definition alice_profile :: User where
  "alice_profile =
     \<lparr>id' = ''u-1'', email = ''alice@example.com'', full_name = Some ''Alice A.'', role = ''operator''\<rparr>"

definition alice_cached :: AuthState where
  "alice_cached =
     resume (FromProfileQuery (QueryResult None (Some [alice_profile]))) 1000
       (snd (onAuthStateChange (Some alice_session) 0 initial_state))"

text \<open>A token without metadata, for a user whose id is \<open>u-2\<close>.\<close>

definition bob :: AuthUser where
  "bob =
     \<lparr>auth_id = ''u-2'',
      auth_email = Some ''bob@example.com'',
      metadata_full_name = None,
      metadata_role = None\<rparr>"

definition bob_session :: Session where
  "bob_session = \<lparr>user = Some bob\<rparr>"

section \<open>Order workflow: facts about the store\<close>

lemma update_orders_ok:
  "orders db orderId = Some ord \<Longrightarrow>
   update_orders payload orderId None db = db\<lparr>orders := (orders db)(orderId \<mapsto> apply_payload payload ord)\<rparr>"
  by (simp add: update_orders_def)

lemma update_orders_failed: "update_orders payload orderId (Some msg) db = db"
  by (simp add: update_orders_def)

lemma update_orders_history:
  "order_status_history (update_orders payload orderId response db) = order_status_history db"
  by (simp add: update_orders_def split: option.splits)

section \<open>Order workflow: legality of transitions\<close>

text \<open>
  Claim C1, as the code has it. Neither \<^verbatim>\<open>updateOrderStatus\<close> nor \<^verbatim>\<open>updateJobStatus\<close>
  looks at the order's current status: for every order and every requested status, when
  the store accepts the write the operation succeeds and the status becomes the requested
  one; the operation fails only when the store reports an error, with that error's
  message, and then nothing is written. The restriction to the edges of the transition
  table is made by the views alone: every status the admin order view offers through its
  status buttons, both outcomes of its payment buttons, and the next status the operator
  job view offers are edges of the table.
\<close>

theorem status_update_unchecked:
  assumes "orders db orderId = Some ord"
  shows "fst (updateOrderStatus orderId newStatus userId notes None db) = Inr ()
       \<and> map_option status (orders (snd (updateOrderStatus orderId newStatus userId notes None db)) orderId) = Some newStatus
       \<and> updateOrderStatus orderId newStatus userId notes (Some msg) db
           = (Inl (Error (''Failed to update order status: '' @ msg)), db)
       \<and> fst (updateJobStatus orderId jobStatus userId notes now None db) = Inr ()
       \<and> map_option status (orders (snd (updateJobStatus orderId jobStatus userId notes now None db)) orderId)
           = Some (production_status jobStatus)
       \<and> updateJobStatus orderId jobStatus userId notes now (Some msg) db = (Inl (StoreError msg), db)
       \<and> (\<forall>s \<in> set (OrderDetailsModal_status_buttons ord). (status ord, s) \<in> set spec_transition_table)
       \<and> (OrderDetailsModal_payment_buttons ord \<longrightarrow>
            (status ord, in_production) \<in> set spec_transition_table
          \<and> (status ord, pending) \<in> set spec_transition_table)
       \<and> (\<forall>s. nextStatus (status ord) = Some s \<longrightarrow>
            (status ord, production_status s) \<in> set spec_transition_table)"
proof -
  have a: "fst (updateOrderStatus orderId newStatus userId notes None db) = Inr ()"
    by (simp add: updateOrderStatus_def Let_def)
  have b: "map_option status (orders (snd (updateOrderStatus orderId newStatus userId notes None db)) orderId) = Some newStatus"
    using assms by (cases "notes") (simp_all add: updateOrderStatus_def Let_def update_orders_ok apply_payload_def)
  have c: "updateOrderStatus orderId newStatus userId notes (Some msg) db
           = (Inl (Error (''Failed to update order status: '' @ msg)), db)"
    by (simp add: updateOrderStatus_def Let_def update_orders_failed)
  have d: "fst (updateJobStatus orderId jobStatus userId notes now None db) = Inr ()"
    by (simp add: updateJobStatus_def Let_def)
  have e: "map_option status (orders (snd (updateJobStatus orderId jobStatus userId notes now None db)) orderId)
           = Some (production_status jobStatus)"
    using assms by (cases "notes") (simp_all add: updateJobStatus_def Let_def update_orders_ok apply_payload_def)
  have f: "updateJobStatus orderId jobStatus userId notes now (Some msg) db = (Inl (StoreError msg), db)"
    by (simp add: updateJobStatus_def Let_def update_orders_failed)
  have g: "\<forall>s \<in> set (OrderDetailsModal_status_buttons ord). (status ord, s) \<in> set spec_transition_table"
    by (auto simp add: OrderDetailsModal_status_buttons_def spec_transition_table_def)
  have h: "OrderDetailsModal_payment_buttons ord \<longrightarrow>
            (status ord, in_production) \<in> set spec_transition_table
          \<and> (status ord, pending) \<in> set spec_transition_table"
    by (simp add: OrderDetailsModal_payment_buttons_def spec_transition_table_def)
  have i: "\<forall>s. nextStatus (status ord) = Some s \<longrightarrow>
            (status ord, production_status s) \<in> set spec_transition_table"
    by (cases "status ord") (simp_all add: spec_transition_table_def)
  from a b c d e f g h i show ?thesis by blast
qed

text \<open>
  Claim C1, witness: the store holding \<open>o1\<close>, with the order in \<open>packaging\<close> (where the
  admin view offers \<open>shipped\<close>), in \<open>confirmation_pending\<close> (where it offers the payment
  buttons) and in \<open>cutting\<close> (where the job view offers \<open>post_processing\<close>).
\<close>

theorem status_update_unchecked_witness:
  "orders (store_with (order_in packaging)) ''o1'' = Some (order_in packaging)
 \<and> fst (updateOrderStatus ''o1'' shipped ''admin-1'' None None (store_with (order_in packaging))) = Inr ()
 \<and> shipped \<in> set (OrderDetailsModal_status_buttons (order_in packaging))
 \<and> (status (order_in packaging), shipped) \<in> set spec_transition_table
 \<and> OrderDetailsModal_payment_buttons (order_in confirmation_pending)
 \<and> (status (order_in confirmation_pending), pending) \<in> set spec_transition_table
 \<and> nextStatus (status (order_in cutting)) = Some job_post_processing
 \<and> (status (order_in cutting), production_status job_post_processing) \<in> set spec_transition_table"
proof -
  have h1: "orders (store_with (order_in packaging)) ''o1'' = Some (order_in packaging)"
    by (simp add: store_with_def)
  have h2: "orders (store_with (order_in confirmation_pending)) ''o1'' = Some (order_in confirmation_pending)"
    by (simp add: store_with_def)
  have h3: "orders (store_with (order_in cutting)) ''o1'' = Some (order_in cutting)"
    by (simp add: store_with_def)
  have b: "shipped \<in> set (OrderDetailsModal_status_buttons (order_in packaging))"
    by (simp add: OrderDetailsModal_status_buttons_def order_in_def)
  have p: "OrderDetailsModal_payment_buttons (order_in confirmation_pending)"
    by (simp add: OrderDetailsModal_payment_buttons_def order_in_def)
  have n: "nextStatus (status (order_in cutting)) = Some job_post_processing"
    by (simp add: order_in_def)
  from status_update_unchecked [OF h1, of shipped "''admin-1''" None]
       status_update_unchecked [OF h2]
       status_update_unchecked [OF h3]
       h1 b p n
  show ?thesis by blast
qed

text \<open>
  Claim C1, counterexample: the edges \<open>cutting \<rightarrow> packaging\<close> (a skip) and
  \<open>packaging \<rightarrow> cutting\<close> (a backward edge) are not in the table, yet
  \<^verbatim>\<open>updateOrderStatus\<close> and \<^verbatim>\<open>updateJobStatus\<close> succeed on them and write the
  requested status.
\<close>

theorem illegal_transition_is_written:
  "(cutting, packaging) \<notin> set spec_transition_table
   \<and> (packaging, cutting) \<notin> set spec_transition_table
   \<and> orders (store_with (order_in cutting)) ''o1'' = Some (order_in cutting)
   \<and> fst (updateOrderStatus ''o1'' packaging ''admin-1'' None None (store_with (order_in cutting))) = Inr ()
   \<and> map_option status
       (orders (snd (updateOrderStatus ''o1'' packaging ''admin-1'' None None (store_with (order_in cutting)))) ''o1'')
       = Some packaging
   \<and> fst (updateJobStatus ''o1'' job_cutting ''op-1'' None ''2025-01-20T10:00:00.000Z'' None
            (store_with (order_in packaging))) = Inr ()
   \<and> map_option status
       (orders (snd (updateJobStatus ''o1'' job_cutting ''op-1'' None ''2025-01-20T10:00:00.000Z'' None
                       (store_with (order_in packaging)))) ''o1'')
       = Some cutting"
  by (simp add: spec_transition_table_def store_with_def order_in_def updateOrderStatus_def
      updateJobStatus_def update_orders_def apply_payload_def)

section \<open>Order workflow: the status history\<close>

text \<open>
  Claim C2, as the code has it. No write operation appends a Status History Entry: each
  of them only updates the order's row, and whatever the store answers the
  \<^verbatim>\<open>order_status_history\<close> table afterwards is exactly the table before, so the operations
  never mutate or delete an entry either. The services only read that table.
\<close>

theorem history_never_written:
  "order_status_history (snd (approvePayment orderId userId now response db)) = order_status_history db
 \<and> order_status_history (snd (rejectPayment orderId userId reason response db)) = order_status_history db
 \<and> order_status_history (snd (cancelOrder orderId userId reason response db)) = order_status_history db
 \<and> order_status_history (snd (updateOrderStatus orderId newStatus userId notes response db)) = order_status_history db
 \<and> order_status_history (snd (startProduction orderId userId now response db)) = order_status_history db
 \<and> order_status_history (snd (updateJobStatus orderId jobStatus userId notes now response db)) = order_status_history db
 \<and> order_status_history (snd (markReadyForShipping orderId userId now response db)) = order_status_history db
 \<and> order_status_history (snd (shipOrder orderId userId trackingNumber trackingUrl now response db)) = order_status_history db"
  by (simp add: approvePayment_def rejectPayment_def cancelOrder_def updateOrderStatus_def
      startProduction_def updateJobStatus_def markReadyForShipping_def shipOrder_def Let_def
      update_orders_history split: option.splits)

text \<open>
  Claim C2, counterexample: the legal transition \<open>shipped \<rightarrow> delivered\<close> succeeds and the
  history still consists of the one earlier row: no entry with old status \<open>shipped\<close> and
  new status \<open>delivered\<close> has been appended.
\<close>

theorem transition_appends_no_history:
  "(shipped, delivered) \<in> set spec_transition_table
 \<and> order_status_history (store_with (order_in shipped)) = [first_entry]
 \<and> fst (updateOrderStatus ''o1'' delivered ''admin-1'' None None (store_with (order_in shipped))) = Inr ()
 \<and> map_option status
      (row_after (updateOrderStatus ''o1'' delivered ''admin-1'' None None (store_with (order_in shipped))) ''o1'')
      = Some delivered
 \<and> order_status_history
      (snd (updateOrderStatus ''o1'' delivered ''admin-1'' None None (store_with (order_in shipped))))
      = [first_entry]"
  by (simp add: spec_transition_table_def store_with_def order_in_def updateOrderStatus_def
      update_orders_def apply_payload_def row_after_def)

section \<open>Order workflow: the requesting operator\<close>

text \<open>
  Claim C3, as the code has it. \<^verbatim>\<open>updateJobStatus\<close> never compares the order's
  \<^verbatim>\<open>assigned_operator_id\<close> with the requesting operator: for every order and every
  requesting operator, when the store accepts the write the request succeeds, the status
  becomes the requested one, \<^verbatim>\<open>status_updated_by\<close> becomes the requester and
  \<^verbatim>\<open>assigned_operator_id\<close> keeps its value; the request fails only when the store reports
  an error, with that error, and then nothing is written. No Status History Entry is
  produced in either case.
\<close>

theorem job_update_ignores_assignment:
  assumes "orders db jobId = Some ord"
  shows "fst (updateJobStatus jobId newStatus operatorId notes now None db) = Inr ()
       \<and> map_option status (row_after (updateJobStatus jobId newStatus operatorId notes now None db) jobId)
           = Some (production_status newStatus)
       \<and> map_option status_updated_by (row_after (updateJobStatus jobId newStatus operatorId notes now None db) jobId)
           = Some (Some operatorId)
       \<and> map_option assigned_operator_id (row_after (updateJobStatus jobId newStatus operatorId notes now None db) jobId)
           = Some (assigned_operator_id ord)
       \<and> updateJobStatus jobId newStatus operatorId notes now (Some msg) db = (Inl (StoreError msg), db)
       \<and> order_status_history (snd (updateJobStatus jobId newStatus operatorId notes now response db))
           = order_status_history db"
proof -
  have ok: "fst (updateJobStatus jobId newStatus operatorId notes now None db) = Inr ()"
    by (simp add: updateJobStatus_def Let_def)
  have row: "row_after (updateJobStatus jobId newStatus operatorId notes now None db) jobId
      = Some (apply_payload
          ([Set_status (production_status newStatus), Set_status_updated_by operatorId]
           @ (case notes of Some n \<Rightarrow> if truthy notes then [Set_operator_notes n] else [] | None \<Rightarrow> [])
           @ (if newStatus = job_packaging then [Set_production_completed_at now] else [])) ord)"
    using assms by (simp add: updateJobStatus_def Let_def update_orders_ok row_after_def)
  have st: "map_option status (row_after (updateJobStatus jobId newStatus operatorId notes now None db) jobId)
           = Some (production_status newStatus)"
    unfolding row by (cases "notes") (simp_all add: apply_payload_def)
  have by': "map_option status_updated_by (row_after (updateJobStatus jobId newStatus operatorId notes now None db) jobId)
           = Some (Some operatorId)"
    unfolding row by (cases "notes") (simp_all add: apply_payload_def)
  have asg: "map_option assigned_operator_id (row_after (updateJobStatus jobId newStatus operatorId notes now None db) jobId)
           = Some (assigned_operator_id ord)"
    unfolding row by (cases "notes") (simp_all add: apply_payload_def)
  have failed: "updateJobStatus jobId newStatus operatorId notes now (Some msg) db = (Inl (StoreError msg), db)"
    by (simp add: updateJobStatus_def Let_def update_orders_failed)
  have hist: "order_status_history (snd (updateJobStatus jobId newStatus operatorId notes now response db))
           = order_status_history db"
    by (simp add: updateJobStatus_def Let_def update_orders_history split: option.splits)
  from ok st by' asg failed hist show ?thesis by blast
qed

text \<open>
  Claim C3, witness: operator \<open>op-2\<close> moves the order assigned to \<open>op-1\<close>.
\<close>

theorem job_update_ignores_assignment_witness:
  "orders (store_with (order_in cutting)) ''o1'' = Some (order_in cutting)
 \<and> fst (updateJobStatus ''o1'' job_post_processing ''op-2'' None ''2025-01-20T10:00:00.000Z'' None
          (store_with (order_in cutting))) = Inr ()
 \<and> map_option status_updated_by
      (row_after (updateJobStatus ''o1'' job_post_processing ''op-2'' None ''2025-01-20T10:00:00.000Z'' None
          (store_with (order_in cutting))) ''o1'') = Some (Some ''op-2'')
 \<and> map_option assigned_operator_id
      (row_after (updateJobStatus ''o1'' job_post_processing ''op-2'' None ''2025-01-20T10:00:00.000Z'' None
          (store_with (order_in cutting))) ''o1'') = Some (Some ''op-1'')"
proof -
  have h: "orders (store_with (order_in cutting)) ''o1'' = Some (order_in cutting)"
    by (simp add: store_with_def)
  from job_update_ignores_assignment [OF h, of job_post_processing "''op-2''" None "''2025-01-20T10:00:00.000Z''"]
  show ?thesis using h by (simp add: order_in_def)
qed

text \<open>
  Claim C3, counterexample: the order is assigned to \<open>op-1\<close>; the request of \<open>op-2\<close> to
  move it along the legal edge \<open>cutting \<rightarrow> post_processing\<close> is not rejected: it succeeds
  and the row is modified.
\<close>

theorem unassigned_operator_is_served:
  "assigned_operator_id (order_in cutting) = Some ''op-1''
 \<and> ''op-2'' \<noteq> ''op-1''
 \<and> (cutting, post_processing) \<in> set spec_transition_table
 \<and> fst (updateJobStatus ''o1'' job_post_processing ''op-2'' None ''2025-01-20T10:00:00.000Z'' None
          (store_with (order_in cutting))) = Inr ()
 \<and> row_after (updateJobStatus ''o1'' job_post_processing ''op-2'' None ''2025-01-20T10:00:00.000Z'' None
          (store_with (order_in cutting))) ''o1''
     = Some ((order_in cutting)\<lparr>status := post_processing, status_updated_by := Some ''op-2''\<rparr>)"
  by (simp add: spec_transition_table_def store_with_def order_in_def updateJobStatus_def
      update_orders_def apply_payload_def row_after_def)

section \<open>Order workflow: cancellation\<close>

text \<open>
  Claim C4, as the code has it. \<^verbatim>\<open>cancelOrder\<close> applies to an order in any status: when
  the store accepts the write, the status becomes \<open>cancelled\<close>, the notes become
  "Cancelled by admin: " followed by the reason, and \<^verbatim>\<open>status_updated_by\<close> the admin; the
  request is rejected only when the store reports an error, and then nothing is written.
  The services do not make \<open>cancelled\<close> terminal: \<^verbatim>\<open>updateOrderStatus\<close> moves a
  cancelled order to whatever status is requested. What holds for an order in
  \<open>cancelled\<close> is that neither the admin order view nor the operator job view offers a
  transition.
\<close>

theorem cancelOrder_unguarded:
  assumes "orders db orderId = Some ord"
  shows "cancelOrder orderId adminId reason None db
           = (Inr (), db\<lparr>orders := (orders db)(orderId \<mapsto>
                ord\<lparr>status := cancelled,
                    operator_notes := Some (''Cancelled by admin: '' @ reason),
                    status_updated_by := Some adminId\<rparr>)\<rparr>)
       \<and> cancelOrder orderId adminId reason (Some msg) db
           = (Inl (Error (''Failed to cancel order: '' @ msg)), db)
       \<and> (status ord = cancelled \<longrightarrow>
            fst (updateOrderStatus orderId newStatus adminId notes None db) = Inr ()
          \<and> map_option status (row_after (updateOrderStatus orderId newStatus adminId notes None db) orderId)
              = Some newStatus
          \<and> OrderDetailsModal_status_buttons ord = []
          \<and> \<not> OrderDetailsModal_payment_buttons ord
          \<and> nextStatus (status ord) = None)"
proof -
  have accepted: "cancelOrder orderId adminId reason None db
           = (Inr (), db\<lparr>orders := (orders db)(orderId \<mapsto>
                ord\<lparr>status := cancelled,
                    operator_notes := Some (''Cancelled by admin: '' @ reason),
                    status_updated_by := Some adminId\<rparr>)\<rparr>)"
    using assms by (simp add: cancelOrder_def Let_def update_orders_ok apply_payload_def)
  have refused: "cancelOrder orderId adminId reason (Some msg) db
           = (Inl (Error (''Failed to cancel order: '' @ msg)), db)"
    by (simp add: cancelOrder_def Let_def update_orders_failed)
  have leaves: "fst (updateOrderStatus orderId newStatus adminId notes None db) = Inr ()
          \<and> map_option status (row_after (updateOrderStatus orderId newStatus adminId notes None db) orderId)
              = Some newStatus"
    using assms
    by (cases "notes")
      (simp_all add: updateOrderStatus_def Let_def update_orders_ok apply_payload_def row_after_def)
  have views: "status ord = cancelled \<longrightarrow>
            OrderDetailsModal_status_buttons ord = []
          \<and> \<not> OrderDetailsModal_payment_buttons ord
          \<and> nextStatus (status ord) = None"
    by (simp add: OrderDetailsModal_status_buttons_def OrderDetailsModal_payment_buttons_def)
  from accepted refused leaves views show ?thesis by blast
qed

text \<open>
  Claim C4, witness: an order already in \<open>cancelled\<close>.
\<close>

theorem cancelOrder_unguarded_witness:
  "orders (store_with (order_in cancelled)) ''o1'' = Some (order_in cancelled)
 \<and> status (order_in cancelled) = cancelled
 \<and> fst (cancelOrder ''o1'' ''admin-1'' ''customer request'' None (store_with (order_in cancelled))) = Inr ()
 \<and> map_option status
      (row_after (updateOrderStatus ''o1'' pending ''admin-1'' None None (store_with (order_in cancelled))) ''o1'')
     = Some pending
 \<and> OrderDetailsModal_status_buttons (order_in cancelled) = []
 \<and> \<not> OrderDetailsModal_payment_buttons (order_in cancelled)
 \<and> nextStatus (status (order_in cancelled)) = None"
proof -
  have h: "orders (store_with (order_in cancelled)) ''o1'' = Some (order_in cancelled)"
    by (simp add: store_with_def)
  have s: "status (order_in cancelled) = cancelled"
    by (simp add: order_in_def)
  from cancelOrder_unguarded [OF h, of "''admin-1''" "''customer request''" _ pending None]
  show ?thesis using h s by simp
qed

text \<open>
  Claim C4, counterexample: an order in \<open>cutting\<close> is cancelled although the table has
  no edge \<open>cutting \<rightarrow> cancelled\<close>, and \<^verbatim>\<open>updateOrderStatus\<close> moves an order out of
  \<open>cancelled\<close> back to \<open>pending\<close>.
\<close>

theorem cancelled_neither_guarded_nor_terminal:
  "(cutting, cancelled) \<notin> set spec_transition_table
 \<and> fst (cancelOrder ''o1'' ''admin-1'' ''customer request'' None (store_with (order_in cutting))) = Inr ()
 \<and> map_option status
      (row_after (cancelOrder ''o1'' ''admin-1'' ''customer request'' None (store_with (order_in cutting))) ''o1'')
      = Some cancelled
 \<and> fst (updateOrderStatus ''o1'' pending ''admin-1'' None None (store_with (order_in cancelled))) = Inr ()
 \<and> map_option status
      (row_after (updateOrderStatus ''o1'' pending ''admin-1'' None None (store_with (order_in cancelled))) ''o1'')
      = Some pending"
  by (simp add: spec_transition_table_def store_with_def order_in_def cancelOrder_def updateOrderStatus_def
      update_orders_def apply_payload_def row_after_def)

section \<open>Order workflow: payment rejection\<close>

text \<open>
  Claim C5, as the code has it. For every order in \<open>confirmation_pending\<close>, an admin
  rejection with reason \<open>r\<close> that the store accepts sets the status to \<open>pending\<close>, clears
  \<^verbatim>\<open>payment_proof_file_id\<close> and \<^verbatim>\<open>payment_proof_uploaded_at\<close>, records the admin in
  \<^verbatim>\<open>status_updated_by\<close>, and sets the order's notes to exactly "Payment rejected: r",
  replacing whatever notes were recorded before; every other column keeps its value.
\<close>

theorem rejectPayment_replaces_notes:
  assumes "orders db orderId = Some ord" and "status ord = confirmation_pending"
  shows "rejectPayment orderId adminId reason None db
           = (Inr (), db\<lparr>orders := (orders db)(orderId \<mapsto>
                ord\<lparr>status := pending,
                    operator_notes := Some (''Payment rejected: '' @ reason),
                    status_updated_by := Some adminId,
                    payment_proof_file_id := None,
                    payment_proof_uploaded_at := None\<rparr>)\<rparr>)"
  using assms
  by (simp add: rejectPayment_def Let_def update_orders_ok apply_payload_def)

text \<open>
  Claim C5, witness: the rejection scenario of the specification, reason "blurry proof".
\<close>

theorem rejectPayment_replaces_notes_witness:
  "orders (store_with (order_in confirmation_pending)) ''o1'' = Some (order_in confirmation_pending)
 \<and> status (order_in confirmation_pending) = confirmation_pending
 \<and> map_option operator_notes
      (row_after (rejectPayment ''o1'' ''admin-1'' ''blurry proof'' None
                    (store_with (order_in confirmation_pending))) ''o1'')
     = Some (Some ''Payment rejected: blurry proof'')
 \<and> map_option payment_proof_file_id
      (row_after (rejectPayment ''o1'' ''admin-1'' ''blurry proof'' None
                    (store_with (order_in confirmation_pending))) ''o1'')
     = Some None"
proof -
  have h: "orders (store_with (order_in confirmation_pending)) ''o1'' = Some (order_in confirmation_pending)"
    by (simp add: store_with_def)
  have s: "status (order_in confirmation_pending) = confirmation_pending"
    by (simp add: order_in_def)
  from rejectPayment_replaces_notes [OF h s, of "''admin-1''" "''blurry proof''"]
  show ?thesis using h s by (simp add: row_after_def)
qed

text \<open>
  Claim C5, counterexample: the order carries the note "fragile"; after the rejection the
  notes are "Payment rejected: blurry proof", in which "fragile" does not occur.
\<close>

theorem rejection_overwrites_notes:
  "status (order_in confirmation_pending) = confirmation_pending
 \<and> operator_notes (order_in confirmation_pending) = Some ''fragile''
 \<and> fst (rejectPayment ''o1'' ''admin-1'' ''blurry proof'' None (store_with (order_in confirmation_pending)))
     = Inr ()
 \<and> map_option operator_notes
      (row_after (rejectPayment ''o1'' ''admin-1'' ''blurry proof'' None
                    (store_with (order_in confirmation_pending))) ''o1'')
     = Some (Some ''Payment rejected: blurry proof'')
 \<and> \<not> sublist ''fragile'' ''Payment rejected: blurry proof''"
  by (simp add: store_with_def order_in_def rejectPayment_def
      update_orders_def apply_payload_def row_after_def sublist_Cons_right)

section \<open>Order workflow: the audit columns\<close>

text \<open>
  Claim C6, as the code has it. Every transition the store accepts, through approve,
  reject, cancel, the generic status update, the operator's job update or ship, sets
  \<^verbatim>\<open>status_updated_by\<close> to the acting user. None of them writes \<^verbatim>\<open>status_updated_at\<close>:
  the column keeps the value it had. The time of the transition goes to the side-effect
  columns only: approve sets \<^verbatim>\<open>payment_confirmed_by\<close> and \<^verbatim>\<open>payment_confirmed_at\<close>, the
  job update to \<open>packaging\<close> sets \<^verbatim>\<open>production_completed_at\<close>, ship sets \<^verbatim>\<open>shipped_at\<close>.
\<close>

theorem transition_sets_updated_by_only:
  assumes "orders db orderId = Some ord"
  shows "map_option status_updated_by (row_after (approvePayment orderId actor now None db) orderId) = Some (Some actor)
       \<and> map_option status_updated_at (row_after (approvePayment orderId actor now None db) orderId) = Some (status_updated_at ord)
       \<and> map_option status_updated_by (row_after (rejectPayment orderId actor reason None db) orderId) = Some (Some actor)
       \<and> map_option status_updated_at (row_after (rejectPayment orderId actor reason None db) orderId) = Some (status_updated_at ord)
       \<and> map_option status_updated_by (row_after (cancelOrder orderId actor reason None db) orderId) = Some (Some actor)
       \<and> map_option status_updated_at (row_after (cancelOrder orderId actor reason None db) orderId) = Some (status_updated_at ord)
       \<and> map_option status_updated_by (row_after (updateOrderStatus orderId newStatus actor notes None db) orderId) = Some (Some actor)
       \<and> map_option status_updated_at (row_after (updateOrderStatus orderId newStatus actor notes None db) orderId) = Some (status_updated_at ord)
       \<and> map_option status_updated_by (row_after (updateJobStatus orderId jobStatus actor notes now None db) orderId) = Some (Some actor)
       \<and> map_option status_updated_at (row_after (updateJobStatus orderId jobStatus actor notes now None db) orderId) = Some (status_updated_at ord)
       \<and> map_option status_updated_by (row_after (shipOrder orderId actor trackingNumber trackingUrl now None db) orderId) = Some (Some actor)
       \<and> map_option status_updated_at (row_after (shipOrder orderId actor trackingNumber trackingUrl now None db) orderId) = Some (status_updated_at ord)
       \<and> map_option payment_confirmed_by (row_after (approvePayment orderId actor now None db) orderId) = Some (Some actor)
       \<and> map_option payment_confirmed_at (row_after (approvePayment orderId actor now None db) orderId) = Some (Some now)
       \<and> map_option production_completed_at (row_after (updateJobStatus orderId job_packaging actor notes now None db) orderId) = Some (Some now)
       \<and> map_option shipped_at (row_after (shipOrder orderId actor trackingNumber trackingUrl now None db) orderId) = Some (Some now)"
proof -
  have approve: "map_option status_updated_by (row_after (approvePayment orderId actor now None db) orderId) = Some (Some actor)
       \<and> map_option status_updated_at (row_after (approvePayment orderId actor now None db) orderId) = Some (status_updated_at ord)"
    using assms by (simp add: approvePayment_def Let_def update_orders_ok apply_payload_def row_after_def)
  have reject: "map_option status_updated_by (row_after (rejectPayment orderId actor reason None db) orderId) = Some (Some actor)
       \<and> map_option status_updated_at (row_after (rejectPayment orderId actor reason None db) orderId) = Some (status_updated_at ord)"
    using assms by (simp add: rejectPayment_def Let_def update_orders_ok apply_payload_def row_after_def)
  have cancel: "map_option status_updated_by (row_after (cancelOrder orderId actor reason None db) orderId) = Some (Some actor)
       \<and> map_option status_updated_at (row_after (cancelOrder orderId actor reason None db) orderId) = Some (status_updated_at ord)"
    using assms by (simp add: cancelOrder_def Let_def update_orders_ok apply_payload_def row_after_def)
  have generic: "map_option status_updated_by (row_after (updateOrderStatus orderId newStatus actor notes None db) orderId) = Some (Some actor)
       \<and> map_option status_updated_at (row_after (updateOrderStatus orderId newStatus actor notes None db) orderId) = Some (status_updated_at ord)"
    using assms by (cases "notes") (simp_all add: updateOrderStatus_def Let_def update_orders_ok apply_payload_def row_after_def)
  have job: "map_option status_updated_by (row_after (updateJobStatus orderId jobStatus actor notes now None db) orderId) = Some (Some actor)
       \<and> map_option status_updated_at (row_after (updateJobStatus orderId jobStatus actor notes now None db) orderId) = Some (status_updated_at ord)"
    using assms by (cases "notes") (simp_all add: updateJobStatus_def Let_def update_orders_ok apply_payload_def row_after_def)
  have ship: "map_option status_updated_by (row_after (shipOrder orderId actor trackingNumber trackingUrl now None db) orderId) = Some (Some actor)
       \<and> map_option status_updated_at (row_after (shipOrder orderId actor trackingNumber trackingUrl now None db) orderId) = Some (status_updated_at ord)"
    using assms by (cases trackingNumber; cases trackingUrl)
      (simp_all add: shipOrder_def Let_def update_orders_ok apply_payload_def row_after_def)
  have confirmed: "map_option payment_confirmed_by (row_after (approvePayment orderId actor now None db) orderId) = Some (Some actor)
       \<and> map_option payment_confirmed_at (row_after (approvePayment orderId actor now None db) orderId) = Some (Some now)"
    using assms by (simp add: approvePayment_def Let_def update_orders_ok apply_payload_def row_after_def)
  have completed: "map_option production_completed_at (row_after (updateJobStatus orderId job_packaging actor notes now None db) orderId) = Some (Some now)"
    using assms by (cases "notes") (simp_all add: updateJobStatus_def Let_def update_orders_ok apply_payload_def row_after_def)
  have shipped_at: "map_option shipped_at (row_after (shipOrder orderId actor trackingNumber trackingUrl now None db) orderId) = Some (Some now)"
    using assms by (cases trackingNumber; cases trackingUrl)
      (simp_all add: shipOrder_def Let_def update_orders_ok apply_payload_def row_after_def)
  from approve reject cancel generic job ship confirmed completed shipped_at show ?thesis by blast
qed

text \<open>
  Claim C6, witness: the approval scenario of the specification.
\<close>

theorem transition_sets_updated_by_only_witness:
  "orders (store_with (order_in confirmation_pending)) ''o1'' = Some (order_in confirmation_pending)
 \<and> map_option status_updated_by
      (row_after (approvePayment ''o1'' ''admin-1'' ''2025-01-20T10:00:00.000Z'' None
                    (store_with (order_in confirmation_pending))) ''o1'') = Some (Some ''admin-1'')
 \<and> map_option status_updated_at
      (row_after (approvePayment ''o1'' ''admin-1'' ''2025-01-20T10:00:00.000Z'' None
                    (store_with (order_in confirmation_pending))) ''o1'') = Some None"
proof -
  have h: "orders (store_with (order_in confirmation_pending)) ''o1'' = Some (order_in confirmation_pending)"
    by (simp add: store_with_def)
  from transition_sets_updated_by_only [OF h, of "''admin-1''" "''2025-01-20T10:00:00.000Z''"]
  show ?thesis using h by (simp add: order_in_def)
qed

text \<open>
  Claim C6, counterexample: after a successful approval the row has the new status, the
  confirmation columns and \<^verbatim>\<open>status_updated_by\<close>, while \<^verbatim>\<open>status_updated_at\<close> is still
  null and not the time of the transition.
\<close>

theorem status_updated_at_not_written:
  "(confirmation_pending, in_production) \<in> set spec_transition_table
 \<and> fst (approvePayment ''o1'' ''admin-1'' ''2025-01-20T10:00:00.000Z'' None
          (store_with (order_in confirmation_pending))) = Inr ()
 \<and> row_after (approvePayment ''o1'' ''admin-1'' ''2025-01-20T10:00:00.000Z'' None
          (store_with (order_in confirmation_pending))) ''o1''
     = Some ((order_in confirmation_pending)
          \<lparr>status := in_production,
           payment_confirmed_by := Some ''admin-1'',
           payment_confirmed_at := Some ''2025-01-20T10:00:00.000Z'',
           status_updated_by := Some ''admin-1''\<rparr>)
 \<and> map_option status_updated_at
      (row_after (approvePayment ''o1'' ''admin-1'' ''2025-01-20T10:00:00.000Z'' None
          (store_with (order_in confirmation_pending))) ''o1'')
     = Some None"
  by (simp add: spec_transition_table_def store_with_def order_in_def approvePayment_def
      update_orders_def apply_payload_def row_after_def)

section \<open>Identity cache: facts about calls and answers\<close>

lemma getCurrentUser_in_flight:
  "fetchInProgress st \<Longrightarrow> fetchPromise st = Some p \<Longrightarrow> getCurrentUser now st = (Promise p, st)"
  by (simp add: getCurrentUser_def)

lemma getCurrentUser_idle:
  "\<not> (fetchInProgress st \<and> fetchPromise st \<noteq> None) \<Longrightarrow> getCurrentUser now st = check_cache now st"
  by (auto simp add: getCurrentUser_def split: option.splits)

lemma run_calls_in_flight:
  "fetchInProgress st \<Longrightarrow> fetchPromise st = Some p \<Longrightarrow>
   run (map Call nows) st = (replicate (length nows) (Promise p), st)"
  by (induction nows) (simp_all add: getCurrentUser_in_flight)

lemma check_cache_hit:
  "currentUserCache st = Some c \<Longrightarrow> now - timestamp c < CACHE_DURATION \<Longrightarrow>
   check_cache now st = (Value (cache_user c), st)"
  by (simp add: check_cache_def)

lemma check_cache_miss:
  "(\<forall>c. currentUserCache st = Some c \<longrightarrow> \<not> now - timestamp c < CACHE_DURATION) \<Longrightarrow>
   check_cache now st = start_fetch now st"
  by (simp add: check_cache_def split: option.splits)

lemma start_fetch_known_session:
  "latestSession st = Some s \<Longrightarrow> user s = Some authUser \<Longrightarrow>
   start_fetch now st =
     (Promise (allocated st),
      st\<lparr>fetchInProgress := True, allocated := Suc (allocated st),
         profileQueries := Suc (profileQueries st),
         suspended := Some (AwaitProfile (allocated st) authUser),
         fetchPromise := Some (allocated st)\<rparr>)"
  by (simp add: start_fetch_def with_session_def session_user_def Let_def)

lemma start_fetch_no_session:
  "latestSession st = None \<Longrightarrow>
   start_fetch now st =
     (Promise (allocated st),
      st\<lparr>fetchInProgress := True, allocated := Suc (allocated st),
         getSessionCalls := Suc (getSessionCalls st),
         suspended := Some (AwaitSession (allocated st)),
         fetchPromise := Some (allocated st)\<rparr>)"
  by (simp add: start_fetch_def Let_def)

lemma fetchUserProfile_fallback:
  "error \<noteq> None \<or> userProfiles = None \<or> userProfiles = Some [] \<Longrightarrow>
   fetchUserProfile authUser error userProfiles = auth_metadata_user authUser"
  by (cases error; cases userProfiles) auto

lemma run_cached:
  assumes "currentUserCache st = Some c"
    and "\<not> (fetchInProgress st \<and> fetchPromise st \<noteq> None)"
    and "\<forall>e \<in> set events. within_window (timestamp c) e"
  shows "run events st = (map (\<lambda>e. Value (cache_user c)) (filter is_Call events), st)"
  using assms
proof (induction events)
  case Nil
  then show ?case by simp
next
  case (Cons e events)
  show ?case
  proof (cases e)
    case (Call now)
    with Cons.prems have fresh: "now - timestamp c < CACHE_DURATION" by simp
    have "getCurrentUser now st = (Value (cache_user c), st)"
      using Cons.prems(1,2) fresh by (simp add: getCurrentUser_idle check_cache_hit)
    with Cons Call show ?thesis by simp
  next
    case (SignedIn em pw a)
    with Cons show ?thesis by (simp add: signIn_def)
  next
    case (Arrives a now)
    with Cons.prems show ?thesis by simp
  qed
qed

lemma resume_profile_fallback:
  assumes "suspended st = Some (AwaitProfile p authUser)"
    and "error \<noteq> None \<or> userProfiles = None \<or> userProfiles = Some []"
  shows "resume (FromProfileQuery (QueryResult error userProfiles)) now st
         = finish p (Some (auth_metadata_user authUser))
             (st\<lparr>currentUserCache := Some \<lparr>cache_user = Some (auth_metadata_user authUser), timestamp = now\<rparr>\<rparr>)"
  using assms by (simp add: resume_def fetchUserProfile_fallback Let_def)

lemma resume_session_user:
  assumes "suspended st = Some (AwaitSession p)" and "user s = Some authUser"
  shows "resume (FromGetSession (SessionData (Some s))) now st
         = st\<lparr>profileQueries := Suc (profileQueries st), suspended := Some (AwaitProfile p authUser)\<rparr>"
  using assms by (simp add: resume_def with_session_def session_user_def)

lemma resume_no_session:
  assumes "suspended st = Some (AwaitSession p)" and "session_user session = None"
  shows "resume (FromGetSession (SessionData session)) now st
         = finish p None (st\<lparr>currentUserCache := Some \<lparr>cache_user = None, timestamp = now\<rparr>\<rparr>)"
  using assms by (simp add: resume_def with_session_def)

lemma first_call_state:
  "getCurrentUser 0 initial_state =
     (Promise 0,
      initial_state\<lparr>fetchInProgress := True, allocated := Suc 0, getSessionCalls := Suc 0,
                     suspended := Some (AwaitSession 0), fetchPromise := Some 0\<rparr>)"
  by (simp add: getCurrentUser_def check_cache_def start_fetch_def initial_state_def Let_def)

lemma resume_profile_found:
  assumes "suspended st = Some (AwaitProfile p authUser)"
  shows "resume (FromProfileQuery (QueryResult None (Some (profile # rest)))) now st
         = finish p (Some profile)
             (st\<lparr>currentUserCache := Some \<lparr>cache_user = Some profile, timestamp = now\<rparr>\<rparr>)"
  using assms by (simp add: resume_def Let_def)

lemma resume_profile_timeout:
  assumes "suspended st = Some (AwaitProfile p authUser)"
  shows "resume (FromProfileQuery QueryTimeout) now st
         = finish p (Some (auth_metadata_user authUser))
             (st\<lparr>currentUserCache := Some \<lparr>cache_user = Some (auth_metadata_user authUser), timestamp = now\<rparr>\<rparr>)"
  using assms by (simp add: resume_def Let_def)

lemma run_fetch:
  assumes idle: "\<not> (fetchInProgress st \<and> fetchPromise st \<noteq> None)"
    and miss: "\<forall>c. currentUserCache st = Some c \<longrightarrow> \<not> now - timestamp c < CACHE_DURATION"
    and u: "user s = Some authUser"
    and sess: "latestSession st = None \<or> latestSession st = Some s"
  shows "run (Call now
              # (if latestSession st = None
                 then [Arrives (FromGetSession (SessionData (Some s))) t1] else [])
              @ [Arrives (FromProfileQuery answer) t2]) st
         = ([Promise (allocated st)],
            resume (FromProfileQuery answer) t2
              (st\<lparr>fetchInProgress := True, allocated := Suc (allocated st),
                  getSessionCalls := (if latestSession st = None then Suc (getSessionCalls st)
                                      else getSessionCalls st),
                  profileQueries := Suc (profileQueries st),
                  suspended := Some (AwaitProfile (allocated st) authUser),
                  fetchPromise := Some (allocated st)\<rparr>))"
proof -
  have first: "getCurrentUser now st = start_fetch now st"
    using idle miss by (simp add: getCurrentUser_idle check_cache_miss)
  show ?thesis
  proof (cases "latestSession st")
    case None
    then show ?thesis
      by (simp add: first start_fetch_no_session resume_session_user [OF _ u]) (cases st, simp)
  next
    case (Some s')
    with sess have known: "latestSession st = Some s" by simp
    have same: "st\<lparr>fetchInProgress := True, allocated := Suc (allocated st),
                  getSessionCalls := getSessionCalls st,
                  profileQueries := Suc (profileQueries st),
                  suspended := Some (AwaitProfile (allocated st) authUser),
                  fetchPromise := Some (allocated st)\<rparr>
             = st\<lparr>fetchInProgress := True, allocated := Suc (allocated st),
                  profileQueries := Suc (profileQueries st),
                  suspended := Some (AwaitProfile (allocated st) authUser),
                  fetchPromise := Some (allocated st)\<rparr>"
      by simp
    show ?thesis
      by (simp add: first known start_fetch_known_session [OF known u] same)
  qed
qed

lemma alice_cached_state:
  "alice_cached =
     \<lparr>currentUserCache = Some \<lparr>cache_user = Some alice_profile, timestamp = 1000\<rparr>,
      latestSession = Some alice_session,
      lastUserId = Some ''u-1'',
      fetchInProgress = False,
      fetchPromise = None,
      suspended = None,
      settled = [0 \<mapsto> Some alice_profile],
      allocated = Suc 0,
      getSessionCalls = 0,
      profileQueries = Suc 0\<rparr>"
  by (simp add: alice_cached_def onAuthStateChange_def currentUserId_def session_user_def
      alice_session_def alice_def initial_state_def getCurrentUser_def check_cache_def
      start_fetch_def with_session_def resume_def finish_def Let_def)

lemma getCurrentUser_keeps_observed:
  "lastUserId (snd (getCurrentUser now st)) = lastUserId st
 \<and> latestSession (snd (getCurrentUser now st)) = latestSession st"
  by (simp add: getCurrentUser_def check_cache_def start_fetch_def with_session_def finish_def Let_def
      split: option.splits)

lemma getCurrentUser_after_change:
  assumes "session_user session = Some u"
  shows "currentUserCache (snd (getCurrentUser now
           (st\<lparr>latestSession := session, currentUserCache := None, lastUserId := uid\<rparr>))) = None"
proof -
  from assms obtain s where "session = Some s" "user s = Some u"
    by (auto simp add: session_user_def split: option.splits)
  then show ?thesis
    by (auto simp add: getCurrentUser_def check_cache_def start_fetch_def with_session_def
        session_user_def Let_def split: option.splits)
qed

lemma onAuthStateChange_same:
  "currentUserId session = lastUserId st \<Longrightarrow>
   onAuthStateChange session now st = (NotCalled, st\<lparr>latestSession := session\<rparr>)"
  by (simp add: onAuthStateChange_def Let_def)

lemma onAuthStateChange_records:
  "lastUserId (snd (onAuthStateChange session now st)) = currentUserId session"
proof (cases "currentUserId session = lastUserId st")
  case True
  then show ?thesis by (simp add: onAuthStateChange_same)
next
  case False
  then show ?thesis
    by (cases "session_user session")
      (simp_all add: onAuthStateChange_def Let_def split_beta getCurrentUser_keeps_observed)
qed

text \<open>
  A profile query whose promise rejects reaches the \<^verbatim>\<open>catch\<close> block: the fetch returns
  null and nothing is cached.
\<close>

lemma resume_query_threw:
  "suspended st = Some (AwaitProfile p authUser) \<Longrightarrow>
   resume (FromProfileQuery QueryThrew) now st = finish p None st"
  by (simp add: resume_def)

section \<open>Identity cache: cache hit, fetch and fallback\<close>

text \<open>
  Claim C7. For a call of \<^verbatim>\<open>getCurrentUser()\<close> made while no fetch is outstanding (a call
  made during a fetch is the subject of C8): if a cache entry exists and its age is under
  \<^verbatim>\<open>CACHE_DURATION\<close> (30 seconds), the cached profile is returned and the state, with its
  counts of session and database lookups, is unchanged. Otherwise the session is resolved
  (taken from \<^verbatim>\<open>latestSession\<close>, or asked of the provider once) and the profile record is
  queried once. If the query finds a row, the call yields that row, which is cached. If the
  query answers with an error, with no data or with no row, or if its timeout wins the
  race, the call yields the identity of the token: its id, its email (the empty string
  when it has none), the full name of its metadata, and the role of its metadata,
  \<open>customer\<close> when the metadata has none. The answers considered are those the query
  reports and the timeout; a query whose promise rejects is left out (it reaches the
  \<^verbatim>\<open>catch\<close> block, see \<open>resume_query_threw\<close>).
\<close>

theorem getCurrentUser_cache_then_fetch:
  assumes "\<not> (fetchInProgress st \<and> fetchPromise st \<noteq> None)"
  shows "(\<forall>c. currentUserCache st = Some c \<and> now - timestamp c < CACHE_DURATION \<longrightarrow>
            getCurrentUser now st = (Value (cache_user c), st))
       \<and> ((\<forall>c. currentUserCache st = Some c \<longrightarrow> \<not> now - timestamp c < CACHE_DURATION)
          \<and> user s = Some authUser
          \<and> (latestSession st = None \<or> latestSession st = Some s) \<longrightarrow>
            (let (rs, st') =
                   run (Call now
                        # (if latestSession st = None
                           then [Arrives (FromGetSession (SessionData (Some s))) t1] else [])
                        @ [Arrives (FromProfileQuery answer) t2]) st
             in getSessionCalls st'
                  = (if latestSession st = None then Suc (getSessionCalls st) else getSessionCalls st)
              \<and> profileQueries st' = Suc (profileQueries st)
              \<and> (answer = QueryTimeout
                  \<or> (\<exists>error userProfiles. answer = QueryResult error userProfiles
                        \<and> (error \<noteq> None \<or> userProfiles = None \<or> userProfiles = Some [])) \<longrightarrow>
                    map (yields st') rs =
                      [Some (Some
                         \<lparr>id' = auth_id authUser,
                          email = (case auth_email authUser of Some e \<Rightarrow> e | None \<Rightarrow> []),
                          full_name = metadata_full_name authUser,
                          role = (case metadata_role authUser of
                                    Some r \<Rightarrow> if r = [] then ''customer'' else r
                                  | None \<Rightarrow> ''customer'')\<rparr>)])
              \<and> (\<forall>profile rest. answer = QueryResult None (Some (profile # rest)) \<longrightarrow>
                    map (yields st') rs = [Some (Some profile)]
                  \<and> currentUserCache st' = Some \<lparr>cache_user = Some profile, timestamp = t2\<rparr>)))"
proof (intro conjI allI impI)
  fix c
  assume "currentUserCache st = Some c \<and> now - timestamp c < CACHE_DURATION"
  then show "getCurrentUser now st = (Value (cache_user c), st)"
    using assms by (simp add: getCurrentUser_idle check_cache_hit)
next
  assume a: "(\<forall>c. currentUserCache st = Some c \<longrightarrow> \<not> now - timestamp c < CACHE_DURATION)
          \<and> user s = Some authUser
          \<and> (latestSession st = None \<or> latestSession st = Some s)"
  define waiting where "waiting =
      st\<lparr>fetchInProgress := True, allocated := Suc (allocated st),
         getSessionCalls := (if latestSession st = None then Suc (getSessionCalls st)
                             else getSessionCalls st),
         profileQueries := Suc (profileQueries st),
         suspended := Some (AwaitProfile (allocated st) authUser),
         fetchPromise := Some (allocated st)\<rparr>"
  have w: "suspended waiting = Some (AwaitProfile (allocated st) authUser)"
    by (simp add: waiting_def)
  have r: "run (Call now
                # (if latestSession st = None
                   then [Arrives (FromGetSession (SessionData (Some s))) t1] else [])
                @ [Arrives (FromProfileQuery answer) t2]) st
           = ([Promise (allocated st)], resume (FromProfileQuery answer) t2 waiting)"
    unfolding waiting_def using assms a by (intro run_fetch) simp_all
  have counts: "getSessionCalls (resume (FromProfileQuery answer) t2 waiting)
                  = (if latestSession st = None then Suc (getSessionCalls st) else getSessionCalls st)
              \<and> profileQueries (resume (FromProfileQuery answer) t2 waiting) = Suc (profileQueries st)"
  proof (cases answer)
    case (QueryResult error userProfiles)
    then show ?thesis
      by (simp add: resume_def w finish_def Let_def) (simp add: waiting_def)
  next
    case QueryTimeout
    then show ?thesis
      by (simp add: resume_def w finish_def Let_def) (simp add: waiting_def)
  next
    case QueryThrew
    then show ?thesis
      by (simp add: resume_def w finish_def) (simp add: waiting_def)
  qed
  have identity: "auth_metadata_user authUser =
        \<lparr>id' = auth_id authUser,
         email = (case auth_email authUser of Some e \<Rightarrow> e | None \<Rightarrow> []),
         full_name = metadata_full_name authUser,
         role = (case metadata_role authUser of
                   Some r \<Rightarrow> if r = [] then ''customer'' else r
                 | None \<Rightarrow> ''customer'')\<rparr>"
    by (simp add: auth_metadata_user_def split: option.splits)
  have fallback: "answer = QueryTimeout
                  \<or> (\<exists>error userProfiles. answer = QueryResult error userProfiles
                        \<and> (error \<noteq> None \<or> userProfiles = None \<or> userProfiles = Some [])) \<longrightarrow>
          settled (resume (FromProfileQuery answer) t2 waiting) (allocated st)
            = Some (Some (auth_metadata_user authUser))"
  proof
    assume "answer = QueryTimeout
            \<or> (\<exists>error userProfiles. answer = QueryResult error userProfiles
                  \<and> (error \<noteq> None \<or> userProfiles = None \<or> userProfiles = Some []))"
    then show "settled (resume (FromProfileQuery answer) t2 waiting) (allocated st)
            = Some (Some (auth_metadata_user authUser))"
    proof
      assume "answer = QueryTimeout"
      then show ?thesis by (simp add: resume_profile_timeout [OF w] finish_def)
    next
      assume "\<exists>error userProfiles. answer = QueryResult error userProfiles
                  \<and> (error \<noteq> None \<or> userProfiles = None \<or> userProfiles = Some [])"
      then obtain error userProfiles where ans: "answer = QueryResult error userProfiles"
        and e: "error \<noteq> None \<or> userProfiles = None \<or> userProfiles = Some []" by blast
      show ?thesis by (simp add: ans resume_profile_fallback [OF w e] finish_def)
    qed
  qed
  have found: "\<forall>profile rest. answer = QueryResult None (Some (profile # rest)) \<longrightarrow>
          settled (resume (FromProfileQuery answer) t2 waiting) (allocated st) = Some (Some profile)
        \<and> currentUserCache (resume (FromProfileQuery answer) t2 waiting)
            = Some \<lparr>cache_user = Some profile, timestamp = t2\<rparr>"
    by (simp add: resume_profile_found [OF w] finish_def)
  show "let (rs, st') =
                   run (Call now
                        # (if latestSession st = None
                           then [Arrives (FromGetSession (SessionData (Some s))) t1] else [])
                        @ [Arrives (FromProfileQuery answer) t2]) st
             in getSessionCalls st'
                  = (if latestSession st = None then Suc (getSessionCalls st) else getSessionCalls st)
              \<and> profileQueries st' = Suc (profileQueries st)
              \<and> (answer = QueryTimeout
                  \<or> (\<exists>error userProfiles. answer = QueryResult error userProfiles
                        \<and> (error \<noteq> None \<or> userProfiles = None \<or> userProfiles = Some [])) \<longrightarrow>
                    map (yields st') rs =
                      [Some (Some
                         \<lparr>id' = auth_id authUser,
                          email = (case auth_email authUser of Some e \<Rightarrow> e | None \<Rightarrow> []),
                          full_name = metadata_full_name authUser,
                          role = (case metadata_role authUser of
                                    Some r \<Rightarrow> if r = [] then ''customer'' else r
                                  | None \<Rightarrow> ''customer'')\<rparr>)])
              \<and> (\<forall>profile rest. answer = QueryResult None (Some (profile # rest)) \<longrightarrow>
                    map (yields st') rs = [Some (Some profile)]
                  \<and> currentUserCache st' = Some \<lparr>cache_user = Some profile, timestamp = t2\<rparr>)"
    unfolding r using counts fallback found by (auto simp add: identity [symmetric])
qed

text \<open>
  Claim C7, witness: Alice's cached profile asked for at time 20000; asked for again at
  time 40000, when the entry has expired, with the query answering "permission denied", so
  that the call yields her token's identity with the role \<open>operator\<close> of its metadata;
  Bob, whose token has no metadata, asked for in the module as loaded with the timeout
  winning; and Alice asked for in the module as loaded with her row found.
\<close>

theorem getCurrentUser_cache_then_fetch_witness:
  "\<not> (fetchInProgress alice_cached \<and> fetchPromise alice_cached \<noteq> None)
 \<and> currentUserCache alice_cached = Some \<lparr>cache_user = Some alice_profile, timestamp = 1000\<rparr>
 \<and> (20000::int) - 1000 < CACHE_DURATION
 \<and> getCurrentUser 20000 alice_cached = (Value (Some alice_profile), alice_cached)
 \<and> \<not> (40000::int) - 1000 < CACHE_DURATION
 \<and> latestSession alice_cached = Some alice_session
 \<and> user alice_session = Some alice
 \<and> map (yields (snd (run [Call 40000,
                           Arrives (FromProfileQuery (QueryResult (Some ''permission denied'') None)) 40200]
                        alice_cached)))
      (fst (run [Call 40000,
                 Arrives (FromProfileQuery (QueryResult (Some ''permission denied'') None)) 40200]
              alice_cached))
     = [Some (Some \<lparr>id' = ''u-1'', email = ''alice@example.com'', full_name = Some ''Alice'',
                     role = ''operator''\<rparr>)]
 \<and> \<not> (fetchInProgress initial_state \<and> fetchPromise initial_state \<noteq> None)
 \<and> currentUserCache initial_state = None
 \<and> latestSession initial_state = None
 \<and> user bob_session = Some bob
 \<and> map (yields (snd (run [Call 0,
                           Arrives (FromGetSession (SessionData (Some bob_session))) 200,
                           Arrives (FromProfileQuery QueryTimeout) 8200]
                        initial_state)))
      (fst (run [Call 0,
                 Arrives (FromGetSession (SessionData (Some bob_session))) 200,
                 Arrives (FromProfileQuery QueryTimeout) 8200]
              initial_state))
     = [Some (Some \<lparr>id' = ''u-2'', email = ''bob@example.com'', full_name = None, role = ''customer''\<rparr>)]
 \<and> map (yields (snd (run [Call 0,
                           Arrives (FromGetSession (SessionData (Some alice_session))) 200,
                           Arrives (FromProfileQuery (QueryResult None (Some [alice_profile]))) 400]
                        initial_state)))
      (fst (run [Call 0,
                 Arrives (FromGetSession (SessionData (Some alice_session))) 200,
                 Arrives (FromProfileQuery (QueryResult None (Some [alice_profile]))) 400]
              initial_state))
     = [Some (Some alice_profile)]"
proof -
  have i1: "\<not> (fetchInProgress alice_cached \<and> fetchPromise alice_cached \<noteq> None)"
    by (simp add: alice_cached_state)
  have c1: "currentUserCache alice_cached = Some \<lparr>cache_user = Some alice_profile, timestamp = 1000\<rparr>"
    by (simp add: alice_cached_state)
  have l1: "latestSession alice_cached = Some alice_session"
    by (simp add: alice_cached_state)
  have f1: "(20000::int) - 1000 < CACHE_DURATION"
    by (simp add: CACHE_DURATION_def)
  have f2: "\<not> (40000::int) - 1000 < CACHE_DURATION"
    by (simp add: CACHE_DURATION_def)
  have i2: "\<not> (fetchInProgress initial_state \<and> fetchPromise initial_state \<noteq> None)"
    by (simp add: initial_state_def)
  have c2: "currentUserCache initial_state = None"
    by (simp add: initial_state_def)
  have l2: "latestSession initial_state = None"
    by (simp add: initial_state_def)
  have ua: "user alice_session = Some alice"
    by (simp add: alice_session_def)
  have ub: "user bob_session = Some bob"
    by (simp add: bob_session_def)
  have hit: "getCurrentUser 20000 alice_cached = (Value (Some alice_profile), alice_cached)"
    using getCurrentUser_cache_then_fetch [OF i1, of 20000] c1 f1 by simp
  have known: "map (yields (snd (run [Call 40000,
                           Arrives (FromProfileQuery (QueryResult (Some ''permission denied'') None)) 40200]
                        alice_cached)))
      (fst (run [Call 40000,
                 Arrives (FromProfileQuery (QueryResult (Some ''permission denied'') None)) 40200]
              alice_cached))
     = [Some (Some \<lparr>id' = ''u-1'', email = ''alice@example.com'', full_name = Some ''Alice'',
                     role = ''operator''\<rparr>)]"
    using getCurrentUser_cache_then_fetch
            [OF i1, of 40000 alice_session alice 0
               "QueryResult (Some ''permission denied'') None" 40200] c1 f2 l1 ua
    by (simp add: split_beta Let_def alice_def)
  have timeout: "map (yields (snd (run [Call 0,
                           Arrives (FromGetSession (SessionData (Some bob_session))) 200,
                           Arrives (FromProfileQuery QueryTimeout) 8200]
                        initial_state)))
      (fst (run [Call 0,
                 Arrives (FromGetSession (SessionData (Some bob_session))) 200,
                 Arrives (FromProfileQuery QueryTimeout) 8200]
              initial_state))
     = [Some (Some \<lparr>id' = ''u-2'', email = ''bob@example.com'', full_name = None, role = ''customer''\<rparr>)]"
    using getCurrentUser_cache_then_fetch
            [OF i2, of 0 bob_session bob 200 QueryTimeout 8200] c2 l2 ub
    by (simp add: split_beta Let_def bob_def)
  have found: "map (yields (snd (run [Call 0,
                           Arrives (FromGetSession (SessionData (Some alice_session))) 200,
                           Arrives (FromProfileQuery (QueryResult None (Some [alice_profile]))) 400]
                        initial_state)))
      (fst (run [Call 0,
                 Arrives (FromGetSession (SessionData (Some alice_session))) 200,
                 Arrives (FromProfileQuery (QueryResult None (Some [alice_profile]))) 400]
              initial_state))
     = [Some (Some alice_profile)]"
    using getCurrentUser_cache_then_fetch
            [OF i2, of 0 alice_session alice 200
               "QueryResult None (Some [alice_profile])" 400] c2 l2 ua
    by (simp add: split_beta Let_def)
  from i1 c1 f1 hit f2 l1 ua known i2 c2 l2 ub timeout found show ?thesis by blast
qed

section \<open>Identity cache: single flight\<close>

text \<open>
  Claim C8. While a fetch is outstanding (\<^verbatim>\<open>fetchInProgress\<close> is set and
  \<^verbatim>\<open>fetchPromise\<close> holds a promise), a call of \<^verbatim>\<open>getCurrentUser()\<close> returns that
  promise and changes nothing, so no session or database lookup is initiated; the same
  holds for any number of further calls. Counting from a call that misses the cache and
  starts a fetch that has to wait for the provider or for the database: that call and the
  calls made before an answer arrives all return one and the same promise, and together
  they have initiated exactly one upstream call.
\<close>

theorem single_flight:
  "(fetchInProgress st \<and> fetchPromise st = Some p \<longrightarrow>
      getCurrentUser now st = (Promise p, st)
    \<and> run (map Call nows) st = (replicate (length nows) (Promise p), st))
 \<and> (\<not> (fetchInProgress st \<and> fetchPromise st \<noteq> None)
    \<and> (\<forall>c. currentUserCache st = Some c \<longrightarrow> \<not> now - timestamp c < CACHE_DURATION)
    \<and> (latestSession st = None \<or> session_user (latestSession st) \<noteq> None) \<longrightarrow>
      fst (run (map Call (now # nows)) st) = replicate (Suc (length nows)) (Promise (allocated st))
    \<and> snd (run (map Call (now # nows)) st) = snd (getCurrentUser now st)
    \<and> fetchInProgress (snd (getCurrentUser now st))
    \<and> getSessionCalls (snd (run (map Call (now # nows)) st))
        + profileQueries (snd (run (map Call (now # nows)) st))
        = Suc (getSessionCalls st + profileQueries st))"
proof (intro conjI impI)
  assume "fetchInProgress st \<and> fetchPromise st = Some p"
  then show "getCurrentUser now st = (Promise p, st)"
    by (simp add: getCurrentUser_in_flight)
next
  assume "fetchInProgress st \<and> fetchPromise st = Some p"
  then show "run (map Call nows) st = (replicate (length nows) (Promise p), st)"
    by (simp add: run_calls_in_flight)
next
  assume a: "\<not> (fetchInProgress st \<and> fetchPromise st \<noteq> None)
    \<and> (\<forall>c. currentUserCache st = Some c \<longrightarrow> \<not> now - timestamp c < CACHE_DURATION)
    \<and> (latestSession st = None \<or> session_user (latestSession st) \<noteq> None)"
  then have first: "getCurrentUser now st = start_fetch now st"
    by (simp add: getCurrentUser_idle check_cache_miss)
  obtain st1 where st1: "start_fetch now st = (Promise (allocated st), st1)"
    and fl: "fetchInProgress st1" "fetchPromise st1 = Some (allocated st)"
    and cnt: "getSessionCalls st1 + profileQueries st1 = Suc (getSessionCalls st + profileQueries st)"
  proof (cases "latestSession st")
    case None
    then show ?thesis using that by (simp add: start_fetch_no_session)
  next
    case (Some s)
    with a obtain authUser where "user s = Some authUser"
      by (auto simp add: session_user_def)
    with Some show ?thesis using that by (simp add: start_fetch_known_session)
  qed
  have rest: "run (map Call nows) st1 = (replicate (length nows) (Promise (allocated st)), st1)"
    using fl by (rule run_calls_in_flight)
  show "fst (run (map Call (now # nows)) st) = replicate (Suc (length nows)) (Promise (allocated st))"
    by (simp add: first st1 rest)
  show "snd (run (map Call (now # nows)) st) = snd (getCurrentUser now st)"
    by (simp add: first st1 rest)
  show "fetchInProgress (snd (getCurrentUser now st))"
    by (simp add: first st1 fl)
  show "getSessionCalls (snd (run (map Call (now # nows)) st))
        + profileQueries (snd (run (map Call (now # nows)) st))
        = Suc (getSessionCalls st + profileQueries st)"
    using cnt by (simp add: first st1 rest)
qed

text \<open>
  Claim C8, witness: the freshly loaded module; three callers join the fetch of a first
  one, and the three callers together cause one call of the identity provider.
\<close>

theorem single_flight_witness:
  "fetchInProgress (snd (getCurrentUser 0 initial_state))
 \<and> fetchPromise (snd (getCurrentUser 0 initial_state)) = Some 0
 \<and> run (map Call [1, 2, 3]) (snd (getCurrentUser 0 initial_state))
     = ([Promise 0, Promise 0, Promise 0], snd (getCurrentUser 0 initial_state))
 \<and> \<not> (fetchInProgress initial_state \<and> fetchPromise initial_state \<noteq> None)
 \<and> currentUserCache initial_state = None
 \<and> latestSession initial_state = None
 \<and> fst (run (map Call [0, 1, 2]) initial_state) = [Promise 0, Promise 0, Promise 0]
 \<and> getSessionCalls (snd (run (map Call [0, 1, 2]) initial_state))
     + profileQueries (snd (run (map Call [0, 1, 2]) initial_state)) = 1"
proof -
  have h1: "fetchInProgress (snd (getCurrentUser 0 initial_state))
          \<and> fetchPromise (snd (getCurrentUser 0 initial_state)) = Some 0"
    by (simp add: first_call_state)
  have h2: "\<not> (fetchInProgress initial_state \<and> fetchPromise initial_state \<noteq> None)
          \<and> (\<forall>c. currentUserCache initial_state = Some c \<longrightarrow> \<not> 0 - timestamp c < CACHE_DURATION)
          \<and> (latestSession initial_state = None \<or> session_user (latestSession initial_state) \<noteq> None)"
    by (simp add: initial_state_def)
  have h3: "currentUserCache initial_state = None \<and> latestSession initial_state = None"
    by (simp add: initial_state_def)
  have c0: "getSessionCalls initial_state + profileQueries initial_state = 0"
    by (simp add: initial_state_def)
  have r3: "replicate (length [1, 2, 3 :: int]) (Promise 0) = [Promise 0, Promise 0, Promise 0]"
    by simp
  have r2: "replicate (Suc (length [1, 2 :: int])) (Promise (allocated initial_state))
            = [Promise 0, Promise 0, Promise 0]"
    by (simp add: initial_state_def)
  from single_flight [of "snd (getCurrentUser 0 initial_state)" 0 1 "[1, 2, 3]"] h1
  have "run (map Call [1, 2, 3]) (snd (getCurrentUser 0 initial_state))
     = (replicate (length [1, 2, 3 :: int]) (Promise 0), snd (getCurrentUser 0 initial_state))"
    by blast
  then have a: "run (map Call [1, 2, 3]) (snd (getCurrentUser 0 initial_state))
     = ([Promise 0, Promise 0, Promise 0], snd (getCurrentUser 0 initial_state))"
    by (simp only: r3)
  from single_flight [of initial_state 0 0 "[1, 2]"] h2
  have "fst (run (map Call [0, 1, 2]) initial_state)
          = replicate (Suc (length [1, 2 :: int])) (Promise (allocated initial_state))
     \<and> getSessionCalls (snd (run (map Call [0, 1, 2]) initial_state))
        + profileQueries (snd (run (map Call [0, 1, 2]) initial_state))
        = Suc (getSessionCalls initial_state + profileQueries initial_state)"
    by blast
  then have b: "fst (run (map Call [0, 1, 2]) initial_state) = [Promise 0, Promise 0, Promise 0]
     \<and> getSessionCalls (snd (run (map Call [0, 1, 2]) initial_state))
        + profileQueries (snd (run (map Call [0, 1, 2]) initial_state)) = 1"
    by (simp only: r2 c0) simp
  from h1 h2 h3 a b show ?thesis by blast
qed

section \<open>Identity cache: invalidation\<close>

text \<open>
  Claim C9. A successful sign-out clears the cache. The handler of an auth-state event
  records the user id the event carries in \<^verbatim>\<open>lastUserId\<close>, so that the next event is
  compared with it. An event whose user id differs from \<^verbatim>\<open>lastUserId\<close> clears the cache
  and calls the listener: with null when the event carries no user, and otherwise, no
  fetch being outstanding, with the promise of a fetch it starts for the new session. An
  event whose user id equals \<^verbatim>\<open>lastUserId\<close> only stores the session: the cache is left as
  it was and the listener is not called. Hence of two events in a row carrying the same
  user id, the second never touches the cache nor calls the listener.
\<close>

theorem cache_invalidation:
  "currentUserCache (snd (signOut None st)) = None
 \<and> lastUserId (snd (onAuthStateChange session now st)) = currentUserId session
 \<and> (currentUserId session \<noteq> lastUserId st \<longrightarrow>
      currentUserCache (snd (onAuthStateChange session now st)) = None
    \<and> fst (onAuthStateChange session now st) \<noteq> NotCalled
    \<and> (session_user session = None \<longrightarrow>
         fst (onAuthStateChange session now st) = Called (Value None))
    \<and> (\<forall>u. session_user session = Some u \<and> \<not> (fetchInProgress st \<and> fetchPromise st \<noteq> None) \<longrightarrow>
         fst (onAuthStateChange session now st) = Called (Promise (allocated st))
       \<and> suspended (snd (onAuthStateChange session now st)) = Some (AwaitProfile (allocated st) u)
       \<and> profileQueries (snd (onAuthStateChange session now st)) = Suc (profileQueries st)))
 \<and> (currentUserId session = lastUserId st \<longrightarrow>
      onAuthStateChange session now st = (NotCalled, st\<lparr>latestSession := session\<rparr>))
 \<and> (currentUserId session' = currentUserId session \<longrightarrow>
      onAuthStateChange session' now' (snd (onAuthStateChange session now st))
        = (NotCalled, (snd (onAuthStateChange session now st))\<lparr>latestSession := session'\<rparr>))"
proof (intro conjI impI allI)
  show "currentUserCache (snd (signOut None st)) = None"
    by (simp add: signOut_def)
next
  show "lastUserId (snd (onAuthStateChange session now st)) = currentUserId session"
    by (rule onAuthStateChange_records)
next
  assume changed: "currentUserId session \<noteq> lastUserId st"
  show "currentUserCache (snd (onAuthStateChange session now st)) = None"
  proof (cases "session_user session")
    case None
    with changed show ?thesis by (simp add: onAuthStateChange_def Let_def)
  next
    case (Some u)
    with changed show ?thesis
      by (simp add: onAuthStateChange_def Let_def split_beta getCurrentUser_after_change)
  qed
next
  assume changed: "currentUserId session \<noteq> lastUserId st"
  then show "fst (onAuthStateChange session now st) \<noteq> NotCalled"
    by (cases "session_user session") (simp_all add: onAuthStateChange_def Let_def split_beta)
next
  assume changed: "currentUserId session \<noteq> lastUserId st" and "session_user session = None"
  then show "fst (onAuthStateChange session now st) = Called (Value None)"
    by (simp add: onAuthStateChange_def Let_def)
next
  fix u
  assume changed: "currentUserId session \<noteq> lastUserId st"
    and a: "session_user session = Some u \<and> \<not> (fetchInProgress st \<and> fetchPromise st \<noteq> None)"
  from a obtain s where s: "session = Some s" "user s = Some u"
    by (auto simp add: session_user_def split: option.splits)
  define st2 where "st2 = st\<lparr>latestSession := session, currentUserCache := None,
                              lastUserId := currentUserId session\<rparr>"
  have idle: "\<not> (fetchInProgress st2 \<and> fetchPromise st2 \<noteq> None)"
    using a by (simp add: st2_def)
  have miss: "\<forall>c. currentUserCache st2 = Some c \<longrightarrow> \<not> now - timestamp c < CACHE_DURATION"
    by (simp add: st2_def)
  have known: "latestSession st2 = Some s"
    using s by (simp add: st2_def)
  have call: "getCurrentUser now st2 =
     (Promise (allocated st2),
      st2\<lparr>fetchInProgress := True, allocated := Suc (allocated st2),
          profileQueries := Suc (profileQueries st2),
          suspended := Some (AwaitProfile (allocated st2) u),
          fetchPromise := Some (allocated st2)\<rparr>)"
    using idle miss by (simp add: getCurrentUser_idle check_cache_miss start_fetch_known_session [OF known s(2)])
  have whole: "onAuthStateChange session now st = (Called (fst (getCurrentUser now st2)), snd (getCurrentUser now st2))"
    using changed a by (simp add: onAuthStateChange_def Let_def split_beta st2_def)
  show "fst (onAuthStateChange session now st) = Called (Promise (allocated st))"
    by (simp add: whole call) (simp add: st2_def)
  show "suspended (snd (onAuthStateChange session now st)) = Some (AwaitProfile (allocated st) u)"
    by (simp add: whole call) (simp add: st2_def)
  show "profileQueries (snd (onAuthStateChange session now st)) = Suc (profileQueries st)"
    by (simp add: whole call) (simp add: st2_def)
next
  assume "currentUserId session = lastUserId st"
  then show "onAuthStateChange session now st = (NotCalled, st\<lparr>latestSession := session\<rparr>)"
    by (rule onAuthStateChange_same)
next
  assume "currentUserId session' = currentUserId session"
  then have "currentUserId session' = lastUserId (snd (onAuthStateChange session now st))"
    by (simp add: onAuthStateChange_records)
  then show "onAuthStateChange session' now' (snd (onAuthStateChange session now st))
        = (NotCalled, (snd (onAuthStateChange session now st))\<lparr>latestSession := session'\<rparr>)"
    by (rule onAuthStateChange_same)
qed

text \<open>
  Claim C9, witness: in the module as loaded an event arrives for Alice; once her profile
  is cached, a second event for Alice (a token refresh) leaves it cached, while a sign-out,
  an event for Bob or an event without a session clears it; a second event for Bob is not
  notified.
\<close>

theorem cache_invalidation_witness:
  "currentUserId (Some alice_session) \<noteq> lastUserId initial_state
 \<and> fst (onAuthStateChange (Some alice_session) 0 initial_state) = Called (Promise 0)
 \<and> lastUserId (snd (onAuthStateChange (Some alice_session) 0 initial_state)) = Some ''u-1''
 \<and> currentUserCache alice_cached = Some \<lparr>cache_user = Some alice_profile, timestamp = 1000\<rparr>
 \<and> lastUserId alice_cached = Some ''u-1''
 \<and> currentUserCache (snd (signOut None alice_cached)) = None
 \<and> currentUserId (Some alice_session) = lastUserId alice_cached
 \<and> fst (onAuthStateChange (Some alice_session) 5000 alice_cached) = NotCalled
 \<and> currentUserCache (snd (onAuthStateChange (Some alice_session) 5000 alice_cached))
     = Some \<lparr>cache_user = Some alice_profile, timestamp = 1000\<rparr>
 \<and> currentUserId (Some bob_session) \<noteq> lastUserId alice_cached
 \<and> currentUserCache (snd (onAuthStateChange (Some bob_session) 6000 alice_cached)) = None
 \<and> lastUserId (snd (onAuthStateChange (Some bob_session) 6000 alice_cached)) = Some ''u-2''
 \<and> fst (onAuthStateChange (Some bob_session) 7000
           (snd (onAuthStateChange (Some bob_session) 6000 alice_cached))) = NotCalled
 \<and> currentUserId None \<noteq> lastUserId alice_cached
 \<and> currentUserCache (snd (onAuthStateChange None 8000 alice_cached)) = None
 \<and> fst (onAuthStateChange None 8000 alice_cached) = Called (Value None)"
proof -
  have ida: "currentUserId (Some alice_session) = Some ''u-1''"
    by (simp add: currentUserId_def session_user_def alice_session_def alice_def)
  have idb: "currentUserId (Some bob_session) = Some ''u-2''"
    by (simp add: currentUserId_def session_user_def bob_session_def bob_def)
  have idn: "currentUserId None = None" "session_user None = None"
    by (simp_all add: currentUserId_def session_user_def)
  have sua: "session_user (Some alice_session) = Some alice"
    by (simp add: session_user_def alice_session_def)
  have l0: "lastUserId initial_state = None" "allocated initial_state = 0"
    "\<not> (fetchInProgress initial_state \<and> fetchPromise initial_state \<noteq> None)"
    by (simp_all add: initial_state_def)
  have c1: "currentUserCache alice_cached = Some \<lparr>cache_user = Some alice_profile, timestamp = 1000\<rparr>"
    by (simp add: alice_cached_state)
  have l1: "lastUserId alice_cached = Some ''u-1''"
    by (simp add: alice_cached_state)
  from cache_invalidation [of initial_state "Some alice_session" 0 "Some alice_session" 0] ida l0 sua
  have first: "fst (onAuthStateChange (Some alice_session) 0 initial_state) = Called (Promise 0)
             \<and> lastUserId (snd (onAuthStateChange (Some alice_session) 0 initial_state)) = Some ''u-1''"
    by simp
  from cache_invalidation [of alice_cached "Some alice_session" 5000 "Some alice_session" 5000] ida l1 c1
  have refresh: "currentUserCache (snd (signOut None alice_cached)) = None
     \<and> fst (onAuthStateChange (Some alice_session) 5000 alice_cached) = NotCalled
     \<and> currentUserCache (snd (onAuthStateChange (Some alice_session) 5000 alice_cached))
         = Some \<lparr>cache_user = Some alice_profile, timestamp = 1000\<rparr>"
    by simp
  from cache_invalidation [of alice_cached "Some bob_session" 6000 "Some bob_session" 7000] ida idb l1
  have switch: "currentUserCache (snd (onAuthStateChange (Some bob_session) 6000 alice_cached)) = None
     \<and> lastUserId (snd (onAuthStateChange (Some bob_session) 6000 alice_cached)) = Some ''u-2''
     \<and> fst (onAuthStateChange (Some bob_session) 7000
           (snd (onAuthStateChange (Some bob_session) 6000 alice_cached))) = NotCalled"
    by simp
  from cache_invalidation [of alice_cached None 8000 None 8000] idn l1
  have out: "currentUserCache (snd (onAuthStateChange None 8000 alice_cached)) = None
     \<and> fst (onAuthStateChange None 8000 alice_cached) = Called (Value None)"
    by simp
  from first refresh switch out ida idb idn l0 c1 l1 show ?thesis by simp
qed

section \<open>Identity cache: negative results\<close>

text \<open>
  Claim C10. When the provider answers the awaited \<^verbatim>\<open>getSession()\<close> without a user at
  time \<open>t\<close>, the fetch settles with null and the cache holds the null identity stamped
  \<open>t\<close>. From then on, through any sequence of sign-ins (with no auth-state event
  delivered) and of calls made while \<^verbatim>\<open>Date.now() - t < CACHE_DURATION\<close>, every call
  returns null at once and the state stays the same: the identity provider is not asked
  again.
\<close>

theorem negative_result_is_cached:
  assumes "suspended st = Some (AwaitSession p)"
    and "session_user session = None"
    and "\<forall>e \<in> set events. within_window t e"
  shows "(let st' = resume (FromGetSession (SessionData session)) t st
          in currentUserCache st' = Some \<lparr>cache_user = None, timestamp = t\<rparr>
           \<and> settled st' p = Some None
           \<and> run events st' = (map (\<lambda>e. Value None) (filter is_Call events), st'))"
proof -
  define st' where "st' = resume (FromGetSession (SessionData session)) t st"
  have eq: "st' = finish p None (st\<lparr>currentUserCache := Some \<lparr>cache_user = None, timestamp = t\<rparr>\<rparr>)"
    unfolding st'_def using assms(1,2) by (rule resume_no_session)
  have cache: "currentUserCache st' = Some \<lparr>cache_user = None, timestamp = t\<rparr>"
    by (simp add: eq finish_def)
  have outcome: "settled st' p = Some None"
    by (simp add: eq finish_def)
  have idle: "\<not> (fetchInProgress st' \<and> fetchPromise st' \<noteq> None)"
    by (simp add: eq finish_def)
  have "run events st' = (map (\<lambda>e. Value (cache_user \<lparr>cache_user = None, timestamp = t\<rparr>)) (filter is_Call events), st')"
    using cache idle
  proof (rule run_cached)
    show "\<forall>e\<in>set events. within_window (timestamp \<lparr>cache_user = None, timestamp = t\<rparr>) e"
      using assms(3) by simp
  qed
  then have "run events st' = (map (\<lambda>e. Value None) (filter is_Call events), st')"
    by simp
  with cache outcome show ?thesis
    unfolding st'_def [symmetric] by (simp add: Let_def)
qed

text \<open>
  Claim C10, witness: the first call in the freshly loaded module finds no session at
  time 500; Alice signs in; the calls at times 1000 and 29000 still return null, and the
  provider has been asked once in all.
\<close>

theorem negative_result_is_cached_witness:
  "suspended (snd (getCurrentUser 0 initial_state)) = Some (AwaitSession 0)
 \<and> session_user None = None
 \<and> within_window 500 (Call 1000)
 \<and> within_window 500 (SignedIn ''alice@example.com'' ''secret'' (Inr alice_session))
 \<and> within_window 500 (Call 29000)
 \<and> currentUserCache (resume (FromGetSession (SessionData None)) 500 (snd (getCurrentUser 0 initial_state)))
     = Some \<lparr>cache_user = None, timestamp = 500\<rparr>
 \<and> fst (run [Call 1000, SignedIn ''alice@example.com'' ''secret'' (Inr alice_session), Call 29000]
           (resume (FromGetSession (SessionData None)) 500 (snd (getCurrentUser 0 initial_state))))
     = [Value None, Value None]
 \<and> getSessionCalls (snd (run [Call 1000, SignedIn ''alice@example.com'' ''secret'' (Inr alice_session), Call 29000]
           (resume (FromGetSession (SessionData None)) 500 (snd (getCurrentUser 0 initial_state)))))
     = 1"
proof -
  have h1: "suspended (snd (getCurrentUser 0 initial_state)) = Some (AwaitSession 0)"
    by (simp add: first_call_state)
  have h2: "session_user None = None"
    by (simp add: session_user_def)
  have h3: "\<forall>e \<in> set [Call 1000, SignedIn ''alice@example.com'' ''secret'' (Inr alice_session), Call 29000].
              within_window 500 e"
    by (simp add: CACHE_DURATION_def)
  have c: "getSessionCalls (resume (FromGetSession (SessionData None)) 500 (snd (getCurrentUser 0 initial_state))) = 1"
    by (simp add: first_call_state resume_def with_session_def session_user_def finish_def)
  from negative_result_is_cached [OF h1 h2 h3] h1 h2 h3 c
  show ?thesis by (simp add: Let_def)
qed

end
